theory Spec2Isabelle
  imports Complex_Main "HOL-Library.AList" "HOL-Library.Char_ord" "HOL-Library.List_Lexorder"
begin

section \<open>JavaScript strings and numbers\<close>

text \<open>
  The string methods the screens call. A JavaScript string is modelled as a \<open>string\<close>;
  the recorder only builds names from ASCII digits and punctuation.
\<close>

definition startsWith :: "string \<Rightarrow> string \<Rightarrow> bool" where
  "startsWith s p = (take (length p) s = p)"

definition endsWith :: "string \<Rightarrow> string \<Rightarrow> bool" where
  "endsWith s p = (length p \<le> length s \<and> drop (length s - length p) s = p)"

fun includes_str :: "string \<Rightarrow> string \<Rightarrow> bool" where
  "includes_str [] p = (p = [])"
| "includes_str (c # cs) p = (startsWith (c # cs) p \<or> includes_str cs p)"

text \<open>\<open>s.split('/').pop()\<close>: the part of \<open>s\<close> after its last slash.\<close>

definition split_pop :: "string \<Rightarrow> string" where
  "split_pop s = rev (takeWhile (\<lambda>c. c \<noteq> CHR ''/'') (rev s))"

text \<open>\<open>a || b\<close> on strings: the empty string is falsy.\<close>

definition orElse :: "string \<Rightarrow> string \<Rightarrow> string" where
  "orElse a b = (if a \<noteq> [] then a else b)"

text \<open>\<open>a || b\<close> where \<open>a\<close> may be \<open>null\<close> or \<open>undefined\<close>.\<close>

definition orElseOpt :: "string option \<Rightarrow> string \<Rightarrow> string" where
  "orElseOpt a b = (case a of None \<Rightarrow> b | Some x \<Rightarrow> orElse x b)"

definition digitChar :: "nat \<Rightarrow> char" where
  "digitChar n = ''0123456789'' ! n"

fun toString_nat :: "nat \<Rightarrow> string" where
  "toString_nat n =
     (if n < 10 then [digitChar n] else toString_nat (n div 10) @ [digitChar (n mod 10)])"

declare toString_nat.simps [simp del]

text \<open>\<open>Number.prototype.toString\<close> on an integer.\<close>

definition toString :: "int \<Rightarrow> string" where
  "toString i = (if i < 0 then CHR ''-'' # toString_nat (nat (- i)) else toString_nat (nat i))"

text \<open>\<open>String.prototype.padStart\<close>: it never shortens the string.\<close>

definition padStart :: "nat \<Rightarrow> string \<Rightarrow> string \<Rightarrow> string" where
  "padStart n pad s =
     (if n \<le> length s \<or> pad = [] then s
      else take (n - length s) (concat (replicate (n - length s) pad)) @ s)"

definition isDigit :: "char \<Rightarrow> bool" where
  "isDigit c = (c \<in> set ''0123456789'')"

section \<open>The artifact name\<close>

text \<open>
  What the getters of a JavaScript \<open>Date\<close> return, in local time: \<open>getMonth\<close> counts
  from 0, \<open>getDate\<close> from 1.
\<close>

record Date =
  getFullYear :: int
  getMonth :: nat
  getDate :: nat
  getHours :: nat
  getMinutes :: nat
  getSeconds :: nat
  getMilliseconds :: nat

text \<open>The ranges the getters of any valid \<open>Date\<close> stay in.\<close>

definition validDate :: "Date \<Rightarrow> bool" where
  "validDate d =
     (getMonth d < 12 \<and> 1 \<le> getDate d \<and> getDate d \<le> 31 \<and> getHours d < 24 \<and>
      getMinutes d < 60 \<and> getSeconds d < 60 \<and> getMilliseconds d < 1000)"

text \<open>Two instants of the same wall-clock second differ in their milliseconds only.\<close>

definition sameSecond :: "Date \<Rightarrow> Date \<Rightarrow> bool" where
  "sameSecond a b =
     (getFullYear a = getFullYear b \<and> getMonth a = getMonth b \<and> getDate a = getDate b \<and>
      getHours a = getHours b \<and> getMinutes a = getMinutes b \<and> getSeconds a = getSeconds b)"

text \<open>A date from its fields, for concrete runs.\<close>

definition mkDate :: "int \<Rightarrow> nat \<Rightarrow> nat \<Rightarrow> nat \<Rightarrow> nat \<Rightarrow> nat \<Rightarrow> nat \<Rightarrow> Date" where
  "mkDate y mo d h mi s ms =
     \<lparr>getFullYear = y, getMonth = mo, getDate = d, getHours = h, getMinutes = mi,
      getSeconds = s, getMilliseconds = ms\<rparr>"

text \<open>
  \<open>getFormattedFileName\<close> of the recorder screen, with \<open>new Date()\<close> as the argument
  \<open>now\<close>. The first definition is the earlier revision of the screen, the second the
  revision with save locations; the source text of the two is the same.
\<close>

definition getFormattedFileName_v1 :: "Date \<Rightarrow> string" where
  "getFormattedFileName_v1 now =
     (let year = getFullYear now;
          month = padStart 2 ''0'' (toString (int (getMonth now + 1)));
          day = padStart 2 ''0'' (toString (int (getDate now)));
          hours = padStart 2 ''0'' (toString (int (getHours now)));
          minutes = padStart 2 ''0'' (toString (int (getMinutes now)));
          seconds = padStart 2 ''0'' (toString (int (getSeconds now)))
      in toString year @ ''-'' @ month @ ''-'' @ day @ '' '' @ hours @ ''-'' @ minutes @ ''-''
           @ seconds @ '' 0.m4a'')"

definition getFormattedFileName :: "Date \<Rightarrow> string" where
  "getFormattedFileName now =
     (let year = getFullYear now;
          month = padStart 2 ''0'' (toString (int (getMonth now + 1)));
          day = padStart 2 ''0'' (toString (int (getDate now)));
          hours = padStart 2 ''0'' (toString (int (getHours now)));
          minutes = padStart 2 ''0'' (toString (int (getMinutes now)));
          seconds = padStart 2 ''0'' (toString (int (getSeconds now)))
      in toString year @ ''-'' @ month @ ''-'' @ day @ '' '' @ hours @ ''-'' @ minutes @ ''-''
           @ seconds @ '' 0.m4a'')"

section \<open>The platform\<close>

text \<open>
  The screens call the platform for everything they do: the key-value store, the file
  system, the storage access framework for user-chosen folders, the audio engine and the
  alert dialog. None of it is code of the application, so this section is a model of what
  the application expects of it. A \<open>world\<close> is the state of the device; every call takes
  a world and returns its result, an error when the call rejects, with the world after it.
  \<open>calls\<close> is the trace of the calls made so far, oldest first; size and time queries,
  which change nothing, are not traced.
\<close>

datatype error = StorageError | IOError | PermissionError | AudioError

datatype call =
    GetItem string
  | SetItem string string
  | RemoveItem string
  | WriteAsString string string
  | ReadAsString string
  | Copy string string
  | Delete string bool
  | ReadDirectory string
  | SafCreateFile string string string
  | SafReadDirectory string
  | SafDelete string
  | RequestPermissions
  | SetAudioMode
  | RecordingCreate
  | StopAndUnload
  | SoundCreate string
  | SoundUnload nat
  | Alert string string

definition isSafCall :: "call \<Rightarrow> bool" where
  "isSafCall c =
     (case c of SafCreateFile t n m \<Rightarrow> True | SafReadDirectory t \<Rightarrow> True | SafDelete u \<Rightarrow> True
      | _ \<Rightarrow> False)"

text \<open>
  What differs from device to device and never changes while the application runs:
  \<open>FileSystem.documentDirectory\<close> (\<open>null\<close> where there is none); the URI the storage
  access framework gives a document created in a tree under a display name, which may
  depend on the documents the tree already holds; the time \<open>getTime()\<close> returns for
  \<open>new Date(year, month, day, hour, minute, second)\<close> in the device's time zone; and the
  sort key the collation of the device's locale gives a string, by which
  \<open>String.prototype.localeCompare\<close> orders strings.
\<close>

record platform =
  documentDirectory :: "string option"
  mintUri :: "string \<Rightarrow> string \<Rightarrow> string list \<Rightarrow> string"
  dateToTime :: "int \<Rightarrow> int \<Rightarrow> int \<Rightarrow> int \<Rightarrow> int \<Rightarrow> int \<Rightarrow> real"
  collationKey :: "string \<Rightarrow> string"

record fsfile =
  fcontent :: string
  fmtime :: real

text \<open>An \<open>Audio.Recording\<close> object: what the screen reads of it is \<open>getURI()\<close>.\<close>

datatype audio_recording = AudioRecording (getURI: "string option")

text \<open>
  \<open>files\<close> and \<open>dirs\<close> are the plain file system (a directory is written with its
  trailing slash); \<open>grants\<close> are the trees the user has granted and not revoked, and
  \<open>documents\<close> maps the URI of a document of the storage access framework to its tree and
  its content; \<open>storage\<close> is the key-value store, which rejects every call while
  \<open>storageOk\<close> is false. \<open>micGranted\<close> is the answer to the microphone permission request,
  \<open>audioModeOk\<close>, \<open>micFree\<close> and \<open>captureOk\<close> say whether setting the audio mode, starting a
  capture and ending the capture succeed, and \<open>captureUri\<close> is the file the capture is
  written to. \<open>sounds\<close> are the loaded sounds, \<open>unloadOk\<close> says whether unloading a sound
  succeeds, \<open>clock\<close> is \<open>Date.now()\<close>.
\<close>

record world =
  files :: "(string \<times> fsfile) list"
  dirs :: "string list"
  grants :: "string list"
  documents :: "(string \<times> string \<times> string) list"
  storage :: "(string \<times> string) list"
  storageOk :: bool
  micGranted :: bool
  audioModeOk :: bool
  micFree :: bool
  captureOk :: bool
  captureUri :: "string option"
  sounds :: "nat list"
  nextSound :: nat
  unloadOk :: bool
  clock :: real
  calls :: "call list"

definition logCall :: "call \<Rightarrow> world \<Rightarrow> world" where
  "logCall c w = w\<lparr>calls := calls w @ [c]\<rparr>"

definition isContentUri :: "string \<Rightarrow> bool" where
  "isContentUri u = startsWith u ''content://''"

definition dirname :: "string \<Rightarrow> string" where
  "dirname p = rev (dropWhile (\<lambda>c. c \<noteq> CHR ''/'') (rev p))"

definition withSlash :: "string \<Rightarrow> string" where
  "withSlash d = (if endsWith d ''/'' then d else d @ ''/'')"

subsection \<open>The key-value store\<close>

definition AsyncStorage_getItem :: "string \<Rightarrow> world \<Rightarrow> (error + string option) \<times> world" where
  "AsyncStorage_getItem k w =
     (if storageOk w then Inr (map_of (storage w) k) else Inl StorageError, logCall (GetItem k) w)"

definition AsyncStorage_setItem :: "string \<Rightarrow> string \<Rightarrow> world \<Rightarrow> (error + unit) \<times> world" where
  "AsyncStorage_setItem k v w =
     (if storageOk w
      then (Inr (), logCall (SetItem k v) (w\<lparr>storage := AList.update k v (storage w)\<rparr>))
      else (Inl StorageError, logCall (SetItem k v) w))"

definition AsyncStorage_removeItem :: "string \<Rightarrow> world \<Rightarrow> (error + unit) \<times> world" where
  "AsyncStorage_removeItem k w =
     (if storageOk w
      then (Inr (), logCall (RemoveItem k) (w\<lparr>storage := AList.delete k (storage w)\<rparr>))
      else (Inl StorageError, logCall (RemoveItem k) w))"

subsection \<open>The file system\<close>

text \<open>
  The calls of \<open>FileSystem\<close> take plain paths and document URIs alike. A plain file can be
  written where its directory exists; a document can be written once it has been created
  and while its tree is granted.
\<close>

definition writeFile :: "string \<Rightarrow> string \<Rightarrow> world \<Rightarrow> (error + unit) \<times> world" where
  "writeFile u text w =
     (if isContentUri u then
        (case map_of (documents w) u of
           None \<Rightarrow> (Inl IOError, w)
         | Some (tree, old) \<Rightarrow>
             if tree \<in> set (grants w)
             then (Inr (), w\<lparr>documents := AList.update u (tree, text) (documents w)\<rparr>)
             else (Inl PermissionError, w))
      else if dirname u \<in> set (dirs w)
      then (Inr (), w\<lparr>files := AList.update u \<lparr>fcontent = text, fmtime = clock w / 1000\<rparr> (files w)\<rparr>)
      else (Inl IOError, w))"

definition readFile :: "string \<Rightarrow> world \<Rightarrow> error + string" where
  "readFile u w =
     (if isContentUri u then
        (case map_of (documents w) u of
           None \<Rightarrow> Inl IOError
         | Some (tree, text) \<Rightarrow> if tree \<in> set (grants w) then Inr text else Inl PermissionError)
      else (case map_of (files w) u of None \<Rightarrow> Inl IOError | Some f \<Rightarrow> Inr (fcontent f)))"

definition FileSystem_writeAsStringAsync ::
    "string \<Rightarrow> string \<Rightarrow> world \<Rightarrow> (error + unit) \<times> world" where
  "FileSystem_writeAsStringAsync u text w = writeFile u text (logCall (WriteAsString u text) w)"

definition FileSystem_readAsStringAsync :: "string \<Rightarrow> world \<Rightarrow> (error + string) \<times> world" where
  "FileSystem_readAsStringAsync u w = (readFile u w, logCall (ReadAsString u) w)"

definition FileSystem_copyAsync :: "string \<Rightarrow> string \<Rightarrow> world \<Rightarrow> (error + unit) \<times> world" where
  "FileSystem_copyAsync src dst w =
     (case readFile src w of
        Inl e \<Rightarrow> (Inl e, logCall (Copy src dst) w)
      | Inr text \<Rightarrow> writeFile dst text (logCall (Copy src dst) w))"

text \<open>
  Deleting what does not exist rejects unless the call is made with
  \<open>{ idempotent: true }\<close>.
\<close>

definition deleteFile :: "string \<Rightarrow> bool \<Rightarrow> world \<Rightarrow> (error + unit) \<times> world" where
  "deleteFile u idempotent w =
     (if isContentUri u then
        (case map_of (documents w) u of
           None \<Rightarrow> (if idempotent then Inr () else Inl IOError, w)
         | Some (tree, text) \<Rightarrow>
             if tree \<in> set (grants w)
             then (Inr (), w\<lparr>documents := AList.delete u (documents w)\<rparr>)
             else (Inl PermissionError, w))
      else
        (case map_of (files w) u of
           None \<Rightarrow> (if idempotent then Inr () else Inl IOError, w)
         | Some f \<Rightarrow> (Inr (), w\<lparr>files := AList.delete u (files w)\<rparr>)))"

definition FileSystem_deleteAsync :: "string \<Rightarrow> bool \<Rightarrow> world \<Rightarrow> (error + unit) \<times> world" where
  "FileSystem_deleteAsync u idempotent w = deleteFile u idempotent (logCall (Delete u idempotent) w)"

text \<open>The names of the files of a directory; it rejects when the directory does not exist.\<close>

definition FileSystem_readDirectoryAsync ::
    "string \<Rightarrow> world \<Rightarrow> (error + string list) \<times> world" where
  "FileSystem_readDirectoryAsync d w =
     (if withSlash d \<in> set (dirs w)
      then Inr (map split_pop
             (filter (\<lambda>p. dirname p = withSlash d \<and> split_pop p \<noteq> []) (map fst (files w))))
      else Inl IOError,
      logCall (ReadDirectory d) w)"

text \<open>
  \<open>getInfoAsync\<close>: \<open>None\<close> stands for \<open>{ exists: false }\<close>, whose \<open>size\<close> and
  \<open>modificationTime\<close> are undefined. The time is in seconds.
\<close>

definition FileSystem_getInfoAsync :: "string \<Rightarrow> world \<Rightarrow> (nat \<times> real) option" where
  "FileSystem_getInfoAsync u w =
     (if isContentUri u then
        (case map_of (documents w) u of None \<Rightarrow> None | Some (tree, text) \<Rightarrow> Some (length text, 0))
      else
        (case map_of (files w) u of None \<Rightarrow> None | Some f \<Rightarrow> Some (length (fcontent f), fmtime f)))"

subsection \<open>The storage access framework\<close>

text \<open>
  \<open>createFileAsync\<close> makes a new, empty document in a granted tree and returns the URI
  the platform gives it; \<open>readDirectoryAsync\<close> returns the URIs of the documents of a
  granted tree, not their names; \<open>deleteAsync\<close> is \<open>FileSystem.deleteAsync\<close> under
  another name.
\<close>

definition treeDocuments :: "string \<Rightarrow> world \<Rightarrow> string list" where
  "treeDocuments tree w = map fst (filter (\<lambda>d. fst (snd d) = tree) (documents w))"

definition SAF_createFileAsync ::
    "platform \<Rightarrow> string \<Rightarrow> string \<Rightarrow> string \<Rightarrow> world \<Rightarrow> (error + string) \<times> world" where
  "SAF_createFileAsync pf tree displayName mime w =
     (if tree \<in> set (grants w) then
        (let u = mintUri pf tree displayName (treeDocuments tree w)
         in (Inr u, logCall (SafCreateFile tree displayName mime)
                      (w\<lparr>documents := AList.update u (tree, []) (documents w)\<rparr>)))
      else (Inl PermissionError, logCall (SafCreateFile tree displayName mime) w))"

definition SAF_readDirectoryAsync :: "string \<Rightarrow> world \<Rightarrow> (error + string list) \<times> world" where
  "SAF_readDirectoryAsync tree w =
     (if tree \<in> set (grants w) then Inr (treeDocuments tree w) else Inl PermissionError,
      logCall (SafReadDirectory tree) w)"

definition SAF_deleteAsync :: "string \<Rightarrow> world \<Rightarrow> (error + unit) \<times> world" where
  "SAF_deleteAsync u w = deleteFile u False (logCall (SafDelete u) w)"

definition SAF_getUriInfoAsync :: "string \<Rightarrow> world \<Rightarrow> error + nat" where
  "SAF_getUriInfoAsync u w =
     (case map_of (documents w) u of
        None \<Rightarrow> Inl IOError
      | Some (tree, text) \<Rightarrow> if tree \<in> set (grants w) then Inr (length text) else Inl PermissionError)"

subsection \<open>Audio and alerts\<close>

definition Audio_requestPermissionsAsync :: "world \<Rightarrow> bool \<times> world" where
  "Audio_requestPermissionsAsync w = (micGranted w, logCall RequestPermissions w)"

definition Audio_setAudioModeAsync :: "world \<Rightarrow> (error + unit) \<times> world" where
  "Audio_setAudioModeAsync w =
     (if audioModeOk w then Inr () else Inl AudioError, logCall SetAudioMode w)"

definition Recording_createAsync :: "world \<Rightarrow> (error + audio_recording) \<times> world" where
  "Recording_createAsync w =
     (if micFree w then Inr (AudioRecording (captureUri w)) else Inl AudioError,
      logCall RecordingCreate w)"

definition stopAndUnloadAsync :: "audio_recording \<Rightarrow> world \<Rightarrow> (error + unit) \<times> world" where
  "stopAndUnloadAsync r w =
     (if captureOk w then Inr () else Inl AudioError, logCall StopAndUnload w)"

text \<open>A sound loads from a file or document that can be read.\<close>

definition Sound_createAsync :: "string \<Rightarrow> world \<Rightarrow> (error + nat) \<times> world" where
  "Sound_createAsync u w =
     (case readFile u w of
        Inl e \<Rightarrow> (Inl AudioError, logCall (SoundCreate u) w)
      | Inr text \<Rightarrow>
          (Inr (nextSound w),
           logCall (SoundCreate u)
             (w\<lparr>sounds := sounds w @ [nextSound w], nextSound := Suc (nextSound w)\<rparr>)))"

definition unloadAsync :: "nat \<Rightarrow> world \<Rightarrow> (error + unit) \<times> world" where
  "unloadAsync sound w =
     (if unloadOk w
      then (Inr (), logCall (SoundUnload sound) (w\<lparr>sounds := removeAll sound (sounds w)\<rparr>))
      else (Inl AudioError, logCall (SoundUnload sound) w))"

definition alert :: "string \<Rightarrow> string \<Rightarrow> world \<Rightarrow> world" where
  "alert title message w = logCall (Alert title message) w"

lemmas platform_defs =
  logCall_def isContentUri_def dirname_def withSlash_def AsyncStorage_getItem_def
  AsyncStorage_setItem_def AsyncStorage_removeItem_def writeFile_def readFile_def
  FileSystem_writeAsStringAsync_def FileSystem_readAsStringAsync_def FileSystem_copyAsync_def
  deleteFile_def FileSystem_deleteAsync_def FileSystem_readDirectoryAsync_def
  FileSystem_getInfoAsync_def treeDocuments_def SAF_createFileAsync_def
  SAF_readDirectoryAsync_def SAF_deleteAsync_def SAF_getUriInfoAsync_def
  Audio_requestPermissionsAsync_def Audio_setAudioModeAsync_def Recording_createAsync_def
  stopAndUnloadAsync_def Sound_createAsync_def unloadAsync_def alert_def

section \<open>The recorder screen\<close>

text \<open>
  The state variables of the recorder screen (the revision with save locations). A
  handler runs inside the closure of one render: what it reads of the state is the state
  of that render, the argument \<open>s\<close> below, whatever it has set in the meantime; what it
  sets is the state of the next render, threaded through as \<open>st\<close> and returned.
  \<open>console\<close> output is left out.
\<close>

record index_state =
  isRecording :: bool
  recordTime :: string
  recording :: "audio_recording option"
  saveLocation :: string
  lockFileName :: string

text \<open>\<open>FileSystem.documentDirectory || ''\<close>\<close>

definition documentDirectoryOrEmpty :: "platform \<Rightarrow> string" where
  "documentDirectoryOrEmpty pf = orElseOpt (documentDirectory pf) []"

definition loadSaveLocation :: "platform \<Rightarrow> index_state \<Rightarrow> world \<Rightarrow> index_state \<times> world" where
  "loadSaveLocation pf st w =
     (case AsyncStorage_getItem ''saveLocation'' w of
        (Inl e, w1) \<Rightarrow> (st\<lparr>saveLocation := documentDirectoryOrEmpty pf\<rparr>, w1)
      | (Inr None, w1) \<Rightarrow> (st\<lparr>saveLocation := documentDirectoryOrEmpty pf\<rparr>, w1)
      | (Inr (Some savedLocation), w1) \<Rightarrow>
          if savedLocation \<noteq> [] then (st\<lparr>saveLocation := savedLocation\<rparr>, w1)
          else (st\<lparr>saveLocation := documentDirectoryOrEmpty pf\<rparr>, w1))"

definition requestPermissions :: "world \<Rightarrow> bool \<times> world" where
  "requestPermissions w =
     (case Audio_requestPermissionsAsync w of
        (False, w1) \<Rightarrow>
          (False, alert ''Permission Required'' ''Please grant microphone permissions'' w1)
      | (True, w1) \<Rightarrow>
          (case Audio_setAudioModeAsync w1 of
             (Inl e, w2) \<Rightarrow> (False, w2)
           | (Inr u, w2) \<Rightarrow> (True, w2)))"

text \<open>\<open>saveLocation || FileSystem.documentDirectory || ''\<close>, the location a handler resolves.\<close>

definition targetLocation :: "platform \<Rightarrow> index_state \<Rightarrow> string" where
  "targetLocation pf s = orElse (saveLocation s) (documentDirectoryOrEmpty pf)"

definition createLockFile ::
    "platform \<Rightarrow> index_state \<Rightarrow> index_state \<Rightarrow> world \<Rightarrow> string option \<times> index_state \<times> world" where
  "createLockFile pf s st w =
     (let lockName = ''recording.lock'' in
      if targetLocation pf s \<noteq> [] \<and> startsWith (targetLocation pf s) ''content://'' then
        (case SAF_createFileAsync pf (targetLocation pf s) lockName ''text/plain'' w of
           (Inl e, w1) \<Rightarrow> (None, st, w1)
         | (Inr lockFileUri, w1) \<Rightarrow>
             (case FileSystem_writeAsStringAsync lockFileUri ''RECORDING_IN_PROGRESS'' w1 of
                (Inl e, w2) \<Rightarrow> (None, st, w2)
              | (Inr u, w2) \<Rightarrow> (Some lockFileUri, st\<lparr>lockFileName := lockName\<rparr>, w2)))
      else
        (let lockFileUri = targetLocation pf s @ lockName in
         case FileSystem_writeAsStringAsync lockFileUri ''RECORDING_IN_PROGRESS'' w of
           (Inl e, w1) \<Rightarrow> (None, st, w1)
         | (Inr u, w1) \<Rightarrow> (Some lockFileUri, st\<lparr>lockFileName := lockName\<rparr>, w1)))"

text \<open>
  For a scoped directory \<open>removeLockFile\<close> calls nothing: the branch holds only the
  comment that the lock file would have to be found and deleted, and that for now the
  state alone is cleared.
\<close>

definition removeLockFile ::
    "platform \<Rightarrow> index_state \<Rightarrow> index_state \<Rightarrow> world \<Rightarrow> index_state \<times> world" where
  "removeLockFile pf s st w =
     (if lockFileName s = [] then (st, w)
      else if targetLocation pf s \<noteq> [] \<and> startsWith (targetLocation pf s) ''content://''
      then (st\<lparr>lockFileName := []\<rparr>, w)
      else
        (let lockFileUri = targetLocation pf s @ lockFileName s in
         case FileSystem_deleteAsync lockFileUri True w of
           (Inl e, w1) \<Rightarrow> (st, w1)
         | (Inr u, w1) \<Rightarrow> (st\<lparr>lockFileName := []\<rparr>, w1)))"

text \<open>
  \<open>startRecording\<close>. The recording options are constants of the capture and the status
  callback only redraws the timer; neither is modelled. The name the handler computes
  with \<open>getFormattedFileName\<close> is not used by it.
\<close>

definition startRecording :: "platform \<Rightarrow> index_state \<Rightarrow> world \<Rightarrow> index_state \<times> world" where
  "startRecording pf s w =
     (case requestPermissions w of
        (False, w1) \<Rightarrow> (s, w1)
      | (True, w1) \<Rightarrow>
          (case createLockFile pf s s w1 of
             (lockFileUri, st2, w2) \<Rightarrow>
               (case Recording_createAsync w2 of
                  (Inl e, w3) \<Rightarrow>
                    (case removeLockFile pf s st2 w3 of
                       (st4, w4) \<Rightarrow> (st4, alert ''Error'' ''Failed to start recording'' w4))
                | (Inr newRecording, w3) \<Rightarrow>
                    (st2\<lparr>recording := Some newRecording, isRecording := True\<rparr>, w3))))"

text \<open>
  The body of the inner \<open>try\<close> block of \<open>stopRecording\<close> up to its alert: it saves the
  capture file \<open>u\<close> under the formatted name and returns the URI of the saved artifact,
  or the error of the call that rejected. Reading and writing in Base64 moves the bytes
  unchanged.
\<close>

definition saveFile ::
    "platform \<Rightarrow> Date \<Rightarrow> index_state \<Rightarrow> string \<Rightarrow> world \<Rightarrow> (error + string) \<times> world" where
  "saveFile pf now s u w =
     (let formattedFileName = getFormattedFileName now in
      if targetLocation pf s \<noteq> [] \<and> startsWith (targetLocation pf s) ''content://'' then
        (case SAF_createFileAsync pf (targetLocation pf s) formattedFileName ''audio/m4a'' w of
           (Inl e, w1) \<Rightarrow> (Inl e, w1)
         | (Inr newUri, w1) \<Rightarrow>
             (case FileSystem_readAsStringAsync u w1 of
                (Inl e, w2) \<Rightarrow> (Inl e, w2)
              | (Inr originalFile, w2) \<Rightarrow>
                  (case FileSystem_writeAsStringAsync newUri originalFile w2 of
                     (Inl e, w3) \<Rightarrow> (Inl e, w3)
                   | (Inr x, w3) \<Rightarrow> (Inr newUri, w3))))
      else
        (let fallbackLocation = orElse (targetLocation pf s) (documentDirectoryOrEmpty pf);
             newUri = fallbackLocation @ formattedFileName
         in case FileSystem_copyAsync u newUri w of
              (Inl e, w1) \<Rightarrow> (Inl e, w1)
            | (Inr x, w1) \<Rightarrow> (Inr newUri, w1)))"

text \<open>
  The inner \<open>try\<close> block with its \<open>catch\<close>: the save, then the alert that the recording
  was saved, or the alert of the save error when a call of the save rejected.
\<close>

definition saveRecording :: "platform \<Rightarrow> Date \<Rightarrow> index_state \<Rightarrow> string \<Rightarrow> world \<Rightarrow> world" where
  "saveRecording pf now s u w =
     (case saveFile pf now s u w of
        (Inl saveError, w1) \<Rightarrow>
          alert ''Save Error'' ''Failed to save recording. Check console for details.'' w1
      | (Inr newUri, w1) \<Rightarrow>
          alert ''Recording Saved'' (''Recording saved as: '' @ getFormattedFileName now) w1)"

definition stopRecording ::
    "platform \<Rightarrow> Date \<Rightarrow> index_state \<Rightarrow> world \<Rightarrow> index_state \<times> world" where
  "stopRecording pf now s w =
     (case recording s of
        None \<Rightarrow> (s, w)
      | Some r \<Rightarrow>
          (case stopAndUnloadAsync r w of
             (Inl e, w1) \<Rightarrow> (s, alert ''Error'' ''Failed to stop recording'' w1)
           | (Inr x, w1) \<Rightarrow>
               (let w2 = (case getURI r of
                            None \<Rightarrow> w1
                          | Some u \<Rightarrow> if u \<noteq> [] then saveRecording pf now s u w1 else w1)
                in case removeLockFile pf s s w2 of
                     (st3, w3) \<Rightarrow>
                       (st3\<lparr>recording := None, isRecording := False, recordTime := ''00:00''\<rparr>,
                        w3))))"

section \<open>The recordings screen\<close>

text \<open>
  The interface \<open>Recording\<close> of the recordings screen; \<open>size\<close> is written \<open>size_bytes\<close>.
  A JavaScript number is modelled as a real.
\<close>

record Recording =
  name :: string
  uri :: string
  size_bytes :: nat
  modificationTime :: real

record recordings_state =
  recordings :: "Recording list"
  playingSound :: "nat option"
  playingUri :: "string option"
  loading :: bool
  saveLocation_r :: string

text \<open>
  \<open>Array.prototype.sort\<close> with a comparator: a stable sort, here by insertion; \<open>x\<close> goes
  before \<open>y\<close> unless the comparator is positive.
\<close>

fun insertBy :: "('a \<Rightarrow> 'a \<Rightarrow> real) \<Rightarrow> 'a \<Rightarrow> 'a list \<Rightarrow> 'a list" where
  "insertBy cmp x [] = [x]"
| "insertBy cmp x (y # ys) = (if cmp x y \<le> 0 then x # y # ys else y # insertBy cmp x ys)"

definition sortBy :: "('a \<Rightarrow> 'a \<Rightarrow> real) \<Rightarrow> 'a list \<Rightarrow> 'a list" where
  "sortBy cmp xs = foldr (insertBy cmp) xs []"

text \<open>
  \<open>a.localeCompare(b)\<close>: the collation of the device's locale orders two strings as
  their sort keys are ordered.
\<close>

definition localeCompare :: "platform \<Rightarrow> string \<Rightarrow> string \<Rightarrow> real" where
  "localeCompare pf a b =
     (if collationKey pf a < collationKey pf b then - 1
      else if collationKey pf a = collationKey pf b then 0 else 1)"

text \<open>The comparators of the listings: newest first, and by name.\<close>

definition byModificationTimeDesc :: "Recording \<Rightarrow> Recording \<Rightarrow> real" where
  "byModificationTimeDesc a b = modificationTime b - modificationTime a"

definition byName :: "platform \<Rightarrow> Recording \<Rightarrow> Recording \<Rightarrow> real" where
  "byName pf a b = localeCompare pf (name a) (name b)"

text \<open>\<open>info.size || 0\<close> and \<open>info.modificationTime || 0\<close>\<close>

definition sizeOrZero :: "(nat \<times> real) option \<Rightarrow> nat" where
  "sizeOrZero info = (case info of None \<Rightarrow> 0 | Some (sz, t) \<Rightarrow> sz)"

definition timeOrZero :: "(nat \<times> real) option \<Rightarrow> real" where
  "timeOrZero info = (case info of None \<Rightarrow> 0 | Some (sz, t) \<Rightarrow> t)"

subsection \<open>The first revision: the document directory only\<close>

definition loadRecordings_p001 ::
    "platform \<Rightarrow> recordings_state \<Rightarrow> world \<Rightarrow> recordings_state \<times> world" where
  "loadRecordings_p001 pf st w =
     (case documentDirectory pf of
        None \<Rightarrow> (st\<lparr>loading := False\<rparr>, alert ''Error'' ''Failed to load recordings'' w)
      | Some dir \<Rightarrow>
          (case FileSystem_readDirectoryAsync dir w of
             (Inl e, w1) \<Rightarrow>
               (st\<lparr>loading := False\<rparr>, alert ''Error'' ''Failed to load recordings'' w1)
           | (Inr fs, w1) \<Rightarrow>
               (let recordingFiles = filter (\<lambda>f. endsWith f ''.m4a'') fs;
                    recordingsWithInfo =
                      map (\<lambda>f. let info = FileSystem_getInfoAsync (dir @ f) w1
                                in \<lparr>name = f, uri = dir @ f, size_bytes = sizeOrZero info,
                                    modificationTime = timeOrZero info\<rparr>)
                        recordingFiles
                in (st\<lparr>recordings := sortBy byModificationTimeDesc recordingsWithInfo,
                       loading := False\<rparr>, w1))))"

text \<open>
  The handler of the Delete button of the confirmation dialog that \<open>deleteRecording\<close>
  opens, for the recording at \<open>u\<close>.
\<close>

definition deleteRecording_p001 ::
    "platform \<Rightarrow> recordings_state \<Rightarrow> string \<Rightarrow> world \<Rightarrow> recordings_state \<times> world" where
  "deleteRecording_p001 pf s u w =
     (case FileSystem_deleteAsync u False w of
        (Inl e, w1) \<Rightarrow> (s, alert ''Error'' ''Failed to delete recording'' w1)
      | (Inr x, w1) \<Rightarrow>
          (case loadRecordings_p001 pf s w1 of
             (st2, w2) \<Rightarrow> (st2, alert ''Success'' ''Recording deleted'' w2)))"

subsection \<open>The revision in \<open>app/(tabs)/recordings.tsx\<close>\<close>

text \<open>
  \<open>locationToUse || saveLocation || FileSystem.documentDirectory || ''\<close>; the argument is
  \<open>None\<close> when \<open>loadRecordings\<close> is called without one.
\<close>

definition listLocation :: "platform \<Rightarrow> recordings_state \<Rightarrow> string option \<Rightarrow> string" where
  "listLocation pf s locationToUse =
     orElseOpt locationToUse (orElse (saveLocation_r s) (documentDirectoryOrEmpty pf))"

definition isRecordingFile :: "string \<Rightarrow> bool" where
  "isRecordingFile f = (endsWith f ''.m4a'' \<and> \<not> endsWith f ''.lock'')"

definition loadRecordings_tabs ::
    "platform \<Rightarrow> recordings_state \<Rightarrow> recordings_state \<Rightarrow> string option \<Rightarrow> world \<Rightarrow>
       recordings_state \<times> world" where
  "loadRecordings_tabs pf s st locationToUse w =
     (let target = listLocation pf s locationToUse in
      if startsWith target ''content://'' then
        (case SAF_readDirectoryAsync target w of
           (Inl safError, w1) \<Rightarrow>
             (st\<lparr>recordings := sortBy byModificationTimeDesc [], loading := False\<rparr>, w1)
         | (Inr fs, w1) \<Rightarrow>
             (let recordingFiles = filter isRecordingFile fs;
                  recordingsWithInfo =
                    map (\<lambda>fileName. \<lparr>name = fileName, uri = target @ ''/'' @ fileName,
                                      size_bytes = 0, modificationTime = clock w1\<rparr>)
                      recordingFiles
              in (st\<lparr>recordings := sortBy byModificationTimeDesc recordingsWithInfo,
                     loading := False\<rparr>, w1)))
      else
        (case FileSystem_readDirectoryAsync target w of
           (Inl e, w1) \<Rightarrow>
             (st\<lparr>recordings := [], loading := False\<rparr>,
              alert ''Error'' ''Failed to load recordings'' w1)
         | (Inr fs, w1) \<Rightarrow>
             (let recordingFiles = filter isRecordingFile fs;
                  recordingsWithInfo =
                    map (\<lambda>f. let info = FileSystem_getInfoAsync (target @ f) w1
                              in \<lparr>name = f, uri = target @ f, size_bytes = sizeOrZero info,
                                  modificationTime = timeOrZero info\<rparr>)
                      recordingFiles
              in (st\<lparr>recordings := sortBy byModificationTimeDesc recordingsWithInfo,
                     loading := False\<rparr>, w1))))"

definition deleteRecording_tabs ::
    "platform \<Rightarrow> recordings_state \<Rightarrow> string \<Rightarrow> world \<Rightarrow> recordings_state \<times> world" where
  "deleteRecording_tabs pf s u w =
     (case FileSystem_deleteAsync u False w of
        (Inl e, w1) \<Rightarrow> (s, alert ''Error'' ''Failed to delete recording'' w1)
      | (Inr x, w1) \<Rightarrow>
          (case loadRecordings_tabs pf s s None w1 of
             (st2, w2) \<Rightarrow> (st2, alert ''Success'' ''Recording deleted'' w2)))"

subsection \<open>The latest revision\<close>

text \<open>
  The first match of \<open>/(\d{4})-(\d{2})-(\d{2}) (\d{2})-(\d{2})-(\d{2})/\<close> in a name, as
  its nineteen characters, and \<open>parseInt\<close> on a group of digits.
\<close>

definition stampAt :: "string \<Rightarrow> bool" where
  "stampAt s =
     (19 \<le> length s \<and> list_all isDigit (take 4 s) \<and> s ! 4 = CHR ''-'' \<and>
      list_all isDigit (take 2 (drop 5 s)) \<and> s ! 7 = CHR ''-'' \<and>
      list_all isDigit (take 2 (drop 8 s)) \<and> s ! 10 = CHR '' '' \<and>
      list_all isDigit (take 2 (drop 11 s)) \<and> s ! 13 = CHR ''-'' \<and>
      list_all isDigit (take 2 (drop 14 s)) \<and> s ! 16 = CHR ''-'' \<and>
      list_all isDigit (take 2 (drop 17 s)))"

fun matchStamp :: "string \<Rightarrow> string option" where
  "matchStamp [] = None"
| "matchStamp (c # cs) = (if stampAt (c # cs) then Some (take 19 (c # cs)) else matchStamp cs)"

definition digitValue :: "char \<Rightarrow> nat" where
  "digitValue c = length (takeWhile (\<lambda>d. d \<noteq> c) ''0123456789'')"

definition parseInt :: "string \<Rightarrow> int" where
  "parseInt ds = int (foldl (\<lambda>acc c. 10 * acc + digitValue c) 0 ds)"

text \<open>
  The time of a document of a scoped directory: read off its name where the name holds
  a time stamp, \<open>Date.now()\<close> otherwise, in seconds.
\<close>

definition stampTime :: "platform \<Rightarrow> world \<Rightarrow> string \<Rightarrow> real" where
  "stampTime pf w fileName =
     (case matchStamp fileName of
        Some m \<Rightarrow>
          dateToTime pf (parseInt (take 4 m)) (parseInt (take 2 (drop 5 m)) - 1)
            (parseInt (take 2 (drop 8 m))) (parseInt (take 2 (drop 11 m)))
            (parseInt (take 2 (drop 14 m))) (parseInt (take 2 (drop 17 m))) / 1000
      | None \<Rightarrow> clock w / 1000)"

text \<open>
  The size of a document: asked of the storage access framework, then of the file
  system, else 0.
\<close>

definition safSize :: "world \<Rightarrow> string \<Rightarrow> nat" where
  "safSize w fileUri =
     (case SAF_getUriInfoAsync fileUri w of
        Inr sz \<Rightarrow> sz
      | Inl sizeError \<Rightarrow> sizeOrZero (FileSystem_getInfoAsync fileUri w))"

text \<open>What the listing makes of one URI of a scoped directory; \<open>None\<close> is \<open>null\<close>.\<close>

definition safRecording :: "platform \<Rightarrow> world \<Rightarrow> string \<Rightarrow> Recording option" where
  "safRecording pf w fileUri =
     (let fileName = orElse (split_pop fileUri) fileUri in
      if \<not> endsWith fileName ''.m4a'' \<or> includes_str fileName ''lock'' then None
      else Some \<lparr>name = fileName, uri = fileUri, size_bytes = safSize w fileUri,
                 modificationTime = stampTime pf w fileName\<rparr>)"

definition loadRecordings_p002 ::
    "platform \<Rightarrow> recordings_state \<Rightarrow> recordings_state \<Rightarrow> string option \<Rightarrow> world \<Rightarrow>
       recordings_state \<times> world" where
  "loadRecordings_p002 pf s st locationToUse w =
     (let target = listLocation pf s locationToUse in
      if startsWith target ''content://'' then
        (case SAF_readDirectoryAsync target w of
           (Inl safError, w1) \<Rightarrow>
             (case AsyncStorage_removeItem ''saveLocation'' w1 of
                (Inl e, w2) \<Rightarrow>
                  (st\<lparr>recordings := [], loading := False\<rparr>,
                   alert ''Error'' ''Failed to load recordings'' w2)
              | (Inr x, w2) \<Rightarrow>
                  (st\<lparr>saveLocation_r := documentDirectoryOrEmpty pf,
                      recordings := sortBy (byName pf) [], loading := False\<rparr>, w2))
         | (Inr fs, w1) \<Rightarrow>
             (let recordingsWithInfo = List.map_filter (safRecording pf w1) fs
              in (st\<lparr>recordings := sortBy (byName pf) recordingsWithInfo, loading := False\<rparr>, w1)))
      else
        (case FileSystem_readDirectoryAsync target w of
           (Inl e, w1) \<Rightarrow>
             (st\<lparr>recordings := [], loading := False\<rparr>,
              alert ''Error'' ''Failed to load recordings'' w1)
         | (Inr fs, w1) \<Rightarrow>
             (let recordingFiles = filter isRecordingFile fs;
                  recordingsWithInfo =
                    map (\<lambda>f. let info = FileSystem_getInfoAsync (target @ f) w1
                              in \<lparr>name = f, uri = target @ f, size_bytes = sizeOrZero info,
                                  modificationTime = timeOrZero info / 1000\<rparr>)
                      recordingFiles
              in (st\<lparr>recordings := sortBy (byName pf) recordingsWithInfo, loading := False\<rparr>, w1))))"

definition loadSaveLocationAndRecordings ::
    "platform \<Rightarrow> recordings_state \<Rightarrow> world \<Rightarrow> recordings_state \<times> world" where
  "loadSaveLocationAndRecordings pf s w =
     (case AsyncStorage_getItem ''saveLocation'' w of
        (Inl e, w1) \<Rightarrow>
          loadRecordings_p002 pf s (s\<lparr>saveLocation_r := documentDirectoryOrEmpty pf\<rparr>)
            (Some (documentDirectoryOrEmpty pf)) w1
      | (Inr savedLocation, w1) \<Rightarrow>
          loadRecordings_p002 pf s
            (s\<lparr>saveLocation_r := orElseOpt savedLocation (documentDirectoryOrEmpty pf)\<rparr>)
            (Some (orElseOpt savedLocation (documentDirectoryOrEmpty pf))) w1)"

definition deleteRecording_p002 ::
    "platform \<Rightarrow> recordings_state \<Rightarrow> string \<Rightarrow> world \<Rightarrow> recordings_state \<times> world" where
  "deleteRecording_p002 pf s u w =
     (case (if startsWith u ''content://'' then SAF_deleteAsync u w
            else FileSystem_deleteAsync u False w) of
        (Inl e, w1) \<Rightarrow> (s, alert ''Error'' ''Failed to delete recording'' w1)
      | (Inr x, w1) \<Rightarrow>
          (case loadRecordings_p002 pf s s None w1 of
             (st2, w2) \<Rightarrow> (st2, alert ''Success'' ''Recording deleted'' w2)))"

subsection \<open>Playback\<close>

text \<open>
  \<open>playRecording\<close> has the same text in the three revisions. The comparison with
  \<open>playingUri\<close> reads the state of the render the handler was made in, not what the
  handler has just set. When unloading the sound rejects, the \<open>catch\<close> is reached before
  anything is set.
\<close>

definition playRecording ::
    "recordings_state \<Rightarrow> string \<Rightarrow> world \<Rightarrow> recordings_state \<times> world" where
  "playRecording s u w =
     (case (case playingSound s of
              None \<Rightarrow> (Inr s, w)
            | Some sound \<Rightarrow>
                (case unloadAsync sound w of
                   (Inl e, w1) \<Rightarrow> (Inl e, w1)
                 | (Inr x, w1) \<Rightarrow> (Inr (s\<lparr>playingSound := None, playingUri := None\<rparr>), w1))) of
        (Inl e, w1) \<Rightarrow> (s, alert ''Error'' ''Failed to play recording'' w1)
      | (Inr st1, w1) \<Rightarrow>
          if playingUri s = Some u then (st1, w1)
          else
            (case Sound_createAsync u w1 of
               (Inl e, w2) \<Rightarrow> (st1, alert ''Error'' ''Failed to play recording'' w2)
             | (Inr sound, w2) \<Rightarrow> (st1\<lparr>playingSound := Some sound, playingUri := Some u\<rparr>, w2)))"

section \<open>The settings screen\<close>

record settings_state =
  saveLocation_s :: string
  isLoading :: bool

definition loadSettings :: "platform \<Rightarrow> settings_state \<Rightarrow> world \<Rightarrow> settings_state \<times> world" where
  "loadSettings pf st w =
     (case AsyncStorage_getItem ''saveLocation'' w of
        (Inl e, w1) \<Rightarrow> (st\<lparr>isLoading := False\<rparr>, w1)
      | (Inr None, w1) \<Rightarrow>
          (st\<lparr>saveLocation_s := documentDirectoryOrEmpty pf, isLoading := False\<rparr>, w1)
      | (Inr (Some savedLocation), w1) \<Rightarrow>
          if savedLocation \<noteq> []
          then (st\<lparr>saveLocation_s := savedLocation, isLoading := False\<rparr>, w1)
          else (st\<lparr>saveLocation_s := documentDirectoryOrEmpty pf, isLoading := False\<rparr>, w1))"

definition resetToDefault :: "platform \<Rightarrow> settings_state \<Rightarrow> world \<Rightarrow> settings_state \<times> world" where
  "resetToDefault pf st w =
     (let defaultLocation = documentDirectoryOrEmpty pf in
      case AsyncStorage_setItem ''saveLocation'' defaultLocation w of
        (Inl e, w1) \<Rightarrow> (st, w1)
      | (Inr x, w1) \<Rightarrow>
          (st\<lparr>saveLocation_s := defaultLocation\<rparr>,
           alert ''Success'' ''Reset to default location!'' w1))"

section \<open>Traces and concrete devices\<close>

text \<open>The calls made between a world and a later one.\<close>

definition newCalls :: "world \<Rightarrow> world \<Rightarrow> call list" where
  "newCalls w w' = drop (length (calls w)) (calls w')"

text \<open>
  A provider that gives a document the URI of its tree followed by its display name and,
  where that URI is taken, numbers the display name before its extension, the way the
  external storage provider of Android keeps names unique. Percent-encoding is left out.
\<close>

definition numbered :: "string \<Rightarrow> nat \<Rightarrow> string" where
  "numbered n k =
     (if k = 0 then n
      else if CHR ''.'' \<in> set n
      then rev (drop 1 (dropWhile (\<lambda>c. c \<noteq> CHR ''.'') (rev n))) @ '' ('' @ toString_nat k @ '').''
             @ rev (takeWhile (\<lambda>c. c \<noteq> CHR ''.'') (rev n))
      else n @ '' ('' @ toString_nat k @ '')'')"

fun firstFree :: "(nat \<Rightarrow> string) \<Rightarrow> string list \<Rightarrow> nat \<Rightarrow> nat \<Rightarrow> string" where
  "firstFree f taken k 0 = f k"
| "firstFree f taken k (Suc fuel) =
     (if f k \<in> set taken then firstFree f taken (Suc k) fuel else f k)"

definition providerUri :: "string \<Rightarrow> string \<Rightarrow> string list \<Rightarrow> string" where
  "providerUri tree displayName taken =
     firstFree (\<lambda>k. tree @ ''/document/'' @ numbered displayName k) taken 0 (length taken)"

text \<open>A stand-in for the calendar of the device: milliseconds that grow with the fields.\<close>

definition wallTime :: "int \<Rightarrow> int \<Rightarrow> int \<Rightarrow> int \<Rightarrow> int \<Rightarrow> int \<Rightarrow> real" where
  "wallTime y mo d h mi s =
     real_of_int ((((((y * 12 + mo) * 31 + d) * 24 + h) * 60 + mi) * 60 + s) * 1000)"

text \<open>
  A collation that orders letters without regard to their case first and puts the lower
  case before the upper case where nothing else differs, as the collations of the locales
  do, and every other character by its code.
\<close>

definition foldCase :: "char \<Rightarrow> char" where
  "foldCase c =
     (case map_of (zip ''ABCDEFGHIJKLMNOPQRSTUVWXYZ'' ''abcdefghijklmnopqrstuvwxyz'') c of
        None \<Rightarrow> c
      | Some l \<Rightarrow> l)"

definition swapCase :: "char \<Rightarrow> char" where
  "swapCase c =
     (case map_of (zip ''ABCDEFGHIJKLMNOPQRSTUVWXYZabcdefghijklmnopqrstuvwxyz''
                       ''abcdefghijklmnopqrstuvwxyzABCDEFGHIJKLMNOPQRSTUVWXYZ'') c of
        None \<Rightarrow> c
      | Some l \<Rightarrow> l)"

definition dictionaryKey :: "string \<Rightarrow> string" where
  "dictionaryKey a = map foldCase a @ CHR 0x00 # map swapCase a"

definition docDir :: string where
  "docDir = ''file:///data/files/''"

definition treeUri :: string where
  "treeUri = ''content://documents/tree/Rec''"

definition device :: platform where
  "device =
     \<lparr>documentDirectory = Some docDir, mintUri = providerUri, dateToTime = wallTime,
      collationKey = dictionaryKey\<rparr>"

text \<open>
  A device with two finished capture files in its cache, the document directory, one
  granted tree, an empty key-value store and a working audio engine.
\<close>

definition world0 :: world where
  "world0 =
     \<lparr>files = [(''file:///cache/a.m4a'', \<lparr>fcontent = ''first'', fmtime = 100\<rparr>),
               (''file:///cache/b.m4a'', \<lparr>fcontent = ''second'', fmtime = 200\<rparr>)],
      dirs = [docDir, ''file:///cache/''], grants = [treeUri], documents = [], storage = [],
      storageOk = True, micGranted = True, audioModeOk = True, micFree = True,
      captureOk = True, captureUri = Some ''file:///cache/a.m4a'', sounds = [], nextSound = 0,
      unloadOk = True, clock = 1700000000000, calls = []\<rparr>"

definition idleRecorder :: index_state where
  "idleRecorder =
     \<lparr>isRecording = False, recordTime = ''00:00'', recording = None, saveLocation = [],
      lockFileName = []\<rparr>"

definition idleList :: recordings_state where
  "idleList =
     \<lparr>recordings = [], playingSound = None, playingUri = None, loading = True,
      saveLocation_r = []\<rparr>"

definition idleSettings :: settings_state where
  "idleSettings = \<lparr>saveLocation_s = [], isLoading = True\<rparr>"

text \<open>A document of the granted tree, as the list of a scoped location names it.\<close>

definition lostDocument :: string where
  "lostDocument = ''content://documents/tree/Rec/document/x.m4a''"

text \<open>
  The device after the user has revoked the grant of the tree the key-value store still
  names, and the recordings screen with that tree as its location.
\<close>

definition worldRevoked :: world where
  "worldRevoked = world0\<lparr>grants := [], storage := [(''saveLocation'', treeUri)]\<rparr>"

definition listScoped :: recordings_state where
  "listScoped = idleList\<lparr>saveLocation_r := treeUri\<rparr>"

text \<open>A trace without a call of the storage access framework.\<close>

definition noSafCalls :: "call list \<Rightarrow> bool" where
  "noSafCalls cs = list_all (\<lambda>c. isSafCall c = False) cs"

text \<open>The world with the \<open>saveLocation\<close> key taken out of the key-value store.\<close>

definition keyAbsent :: "world \<Rightarrow> world" where
  "keyAbsent w = w\<lparr>storage := AList.delete ''saveLocation'' (storage w)\<rparr>"




definition listAtDoc :: recordings_state where
  "listAtDoc = idleList\<lparr>saveLocation_r := docDir\<rparr>"




text \<open>The moment the recording is stopped.\<close>

definition stopDate :: Date where
  "stopDate = mkDate 2024 0 5 9 3 7 120"

text \<open>
  The idle recorder with the granted tree, and with the document directory, as its
  location, and the URI the provider gives the lock marker in the tree.
\<close>

definition scopedRecorder :: index_state where
  "scopedRecorder = idleRecorder\<lparr>saveLocation := treeUri\<rparr>"

definition plainRecorder :: index_state where
  "plainRecorder = idleRecorder\<lparr>saveLocation := docDir\<rparr>"

definition lockDocument :: string where
  "lockDocument = treeUri @ ''/document/recording.lock''"

text \<open>Calls that delete a file or a document.\<close>

definition isDeletion :: "call \<Rightarrow> bool" where
  "isDeletion c = (case c of Delete u i \<Rightarrow> True | SafDelete u \<Rightarrow> True | _ \<Rightarrow> False)"

text \<open>
  The documents and the file the runs below create: the artifact saved at \<open>stopDate\<close> in
  the tree and in the document directory, and the second artifact and the second lock
  marker of the tree, whose names the provider numbers.
\<close>

definition artifactDocument :: string where
  "artifactDocument = treeUri @ ''/document/2024-01-05 09-03-07 0.m4a''"

definition artifactDocument2 :: string where
  "artifactDocument2 = treeUri @ ''/document/2024-01-05 09-03-07 0 (1).m4a''"

definition lockDocument2 :: string where
  "lockDocument2 = treeUri @ ''/document/recording (1).lock''"

definition artifactFile :: string where
  "artifactFile = docDir @ ''2024-01-05 09-03-07 0.m4a''"

text \<open>A second moment of the second in which \<open>stopDate\<close> lies.\<close>

definition stopDate2 :: Date where
  "stopDate2 = mkDate 2024 0 5 9 3 7 980"

text \<open>
  A recording started and stopped with the granted tree as the location, then a second
  recording, with another capture file, started and stopped within the same second as the
  first; and the same two recordings with the document directory as the location.
\<close>

definition startedScoped :: "index_state \<times> world" where
  "startedScoped = startRecording device scopedRecorder world0"

definition stoppedScoped :: "index_state \<times> world" where
  "stoppedScoped = stopRecording device stopDate (fst startedScoped) (snd startedScoped)"

definition restartedScoped :: "index_state \<times> world" where
  "restartedScoped =
     startRecording device (fst stoppedScoped)
       ((snd stoppedScoped)\<lparr>captureUri := Some ''file:///cache/b.m4a''\<rparr>)"

definition restoppedScoped :: "index_state \<times> world" where
  "restoppedScoped = stopRecording device stopDate2 (fst restartedScoped) (snd restartedScoped)"

definition startedPlain :: "index_state \<times> world" where
  "startedPlain = startRecording device plainRecorder world0"

definition stoppedPlain :: "index_state \<times> world" where
  "stoppedPlain = stopRecording device stopDate (fst startedPlain) (snd startedPlain)"

definition restartedPlain :: "index_state \<times> world" where
  "restartedPlain =
     startRecording device (fst stoppedPlain)
       ((snd stoppedPlain)\<lparr>captureUri := Some ''file:///cache/b.m4a''\<rparr>)"

definition restoppedPlain :: "index_state \<times> world" where
  "restoppedPlain = stopRecording device stopDate2 (fst restartedPlain) (snd restartedPlain)"


text \<open>
  The list of the recordings screen after the first recording, for the tree and for the
  document directory, in the revision of \<open>app/(tabs)/recordings.tsx\<close> and in the latest.
\<close>

definition listedScoped_tabs :: "recordings_state \<times> world" where
  "listedScoped_tabs = loadRecordings_tabs device listScoped listScoped None (snd stoppedScoped)"

definition listedScoped_p002 :: "recordings_state \<times> world" where
  "listedScoped_p002 = loadRecordings_p002 device listScoped listScoped None (snd stoppedScoped)"

definition listedPlain_tabs :: "recordings_state \<times> world" where
  "listedPlain_tabs = loadRecordings_tabs device listAtDoc listAtDoc None (snd stoppedPlain)"

definition listedPlain_p002 :: "recordings_state \<times> world" where
  "listedPlain_p002 = loadRecordings_p002 device listAtDoc listAtDoc None (snd stoppedPlain)"

text \<open>
  A device on which unloading a sound is rejected, with sound 0 loaded, and the recordings
  screen while it plays \<open>a.m4a\<close>.
\<close>

definition worldNoUnload :: world where
  "worldNoUnload = world0\<lparr>sounds := [0], nextSound := 1, unloadOk := False\<rparr>"

definition playingA :: recordings_state where
  "playingA = idleList\<lparr>playingSound := Some 0, playingUri := Some ''file:///cache/a.m4a''\<rparr>"


text \<open>
  The revoked device with a key-value store that rejects every call, and a device whose
  store names the tree and rejects every call.
\<close>

definition worldRevokedNoStore :: world where
  "worldRevokedNoStore = worldRevoked\<lparr>storageOk := False\<rparr>"

definition worldNoStore :: world where
  "worldNoStore = world0\<lparr>storage := [(''saveLocation'', treeUri)], storageOk := False\<rparr>"

text \<open>
  A provider that hands out the URI of the tree followed by the display name, whether or
  not a document of that name exists, and the device with it; the worlds after one
  recording has been saved into the tree on either device.
\<close>

definition reusingUri :: "string \<Rightarrow> string \<Rightarrow> string list \<Rightarrow> string" where
  "reusingUri tree displayName taken = tree @ ''/document/'' @ displayName"

definition deviceReusing :: platform where
  "deviceReusing = device\<lparr>mintUri := reusingUri\<rparr>"

definition savedReusing :: world where
  "savedReusing = snd (saveFile deviceReusing stopDate scopedRecorder ''file:///cache/a.m4a'' world0)"

definition savedNumbering :: world where
  "savedNumbering = snd (saveFile device stopDate scopedRecorder ''file:///cache/a.m4a'' world0)"




text \<open>A number below 100 as the two characters \<open>padStart(2, '0')\<close> makes of it.\<close>

definition twoDigits :: "nat \<Rightarrow> string" where
  "twoDigits n = [digitChar (n div 10), digitChar (n mod 10)]"

definition fourDigits :: "nat \<Rightarrow> string" where
  "fourDigits n =
     [digitChar (n div 1000), digitChar (n div 100 mod 10), digitChar (n div 10 mod 10),
      digitChar (n mod 10)]"

section \<open>Properties of the artifact name\<close>

lemma toString_nat_small: "n < 10 \<Longrightarrow> toString_nat n = [digitChar n]"
  by (simp add: toString_nat.simps)

lemma toString_nat_two:
  assumes "10 \<le> n" and "n < 100"
  shows "toString_nat n = twoDigits n"
proof -
  have "n div 10 < 10" using assms by simp
  then have "toString_nat (n div 10) = [digitChar (n div 10)]"
    by (rule toString_nat_small)
  moreover have "toString_nat n = toString_nat (n div 10) @ [digitChar (n mod 10)]"
    using assms by (subst toString_nat.simps) simp
  ultimately show ?thesis by (simp add: twoDigits_def)
qed

lemma toString_nat_three:
  assumes "100 \<le> n" and "n < 1000"
  shows "toString_nat n = [digitChar (n div 100), digitChar (n div 10 mod 10), digitChar (n mod 10)]"
proof -
  have "10 \<le> n div 10" and "n div 10 < 100" using assms by simp_all
  then have "toString_nat (n div 10) = twoDigits (n div 10)"
    by (rule toString_nat_two)
  moreover have "toString_nat n = toString_nat (n div 10) @ [digitChar (n mod 10)]"
    using assms by (subst toString_nat.simps) simp
  moreover have "n div 10 div 10 = n div 100" by (simp add: div_mult2_eq)
  ultimately show ?thesis by (simp add: twoDigits_def)
qed

lemma toString_nat_four:
  assumes "1000 \<le> n" and "n < 10000"
  shows "toString_nat n = fourDigits n"
proof -
  have "100 \<le> n div 10" and "n div 10 < 1000" using assms by simp_all
  then have "toString_nat (n div 10) =
      [digitChar (n div 10 div 100), digitChar (n div 10 div 10 mod 10), digitChar (n div 10 mod 10)]"
    by (rule toString_nat_three)
  moreover have "toString_nat n = toString_nat (n div 10) @ [digitChar (n mod 10)]"
    using assms by (subst toString_nat.simps) simp
  moreover have "n div 10 div 100 = n div 1000" and "n div 10 div 10 = n div 100"
    by (simp_all add: div_mult2_eq)
  ultimately show ?thesis by (simp add: fourDigits_def)
qed

lemma padStart_two: "n < 100 \<Longrightarrow> padStart 2 ''0'' (toString (int n)) = twoDigits n"
proof (cases "n < 10")
  case True
  then have "toString (int n) = [digitChar n]"
    by (simp add: toString_def toString_nat_small)
  moreover have "digitChar 0 = CHR ''0''" by (simp add: digitChar_def)
  ultimately show ?thesis using True by (simp add: padStart_def twoDigits_def)
next
  case False
  assume "n < 100"
  with False have "toString (int n) = twoDigits n"
    by (simp add: toString_def toString_nat_two)
  then show ?thesis by (simp add: padStart_def twoDigits_def)
qed

lemma isDigit_digitChar: "n < 10 \<Longrightarrow> isDigit (digitChar n)"
proof -
  assume "n < 10"
  then have "n \<in> {0, 1, 2, 3, 4, 5, 6, 7, 8, 9}" by auto
  then show ?thesis by (auto simp: isDigit_def digitChar_def)
qed

lemma twoDigits_digits: "n < 100 \<Longrightarrow> list_all isDigit (twoDigits n)"
  by (simp add: twoDigits_def isDigit_digitChar)

lemma fourDigits_digits: "n < 10000 \<Longrightarrow> list_all isDigit (fourDigits n)"
  by (simp add: fourDigits_def isDigit_digitChar)

lemma getFormattedFileName_eq:
  assumes "validDate now"
  shows "getFormattedFileName now =
    toString (getFullYear now) @ ''-'' @ twoDigits (getMonth now + 1) @ ''-'' @
    twoDigits (getDate now) @ '' '' @ twoDigits (getHours now) @ ''-'' @
    twoDigits (getMinutes now) @ ''-'' @ twoDigits (getSeconds now) @ '' 0.m4a''"
proof -
  have "getMonth now + 1 < 100" "getDate now < 100" "getHours now < 100"
    "getMinutes now < 100" "getSeconds now < 100"
    using assms by (simp_all add: validDate_def)
  then show ?thesis
    by (simp add: getFormattedFileName_def Let_def padStart_two del: of_nat_add of_nat_Suc)
qed

lemma getFormattedFileName_versions: "getFormattedFileName_v1 now = getFormattedFileName now"
  by (simp add: getFormattedFileName_v1_def getFormattedFileName_def)

lemma getFormattedFileName_sameSecond:
  "sameSecond a b \<Longrightarrow> getFormattedFileName a = getFormattedFileName b"
  by (simp add: sameSecond_def getFormattedFileName_def)

text \<open>
  Claim C9. Every name the recorder produces reads \<open>YYYY-MM-DD HH-MM-SS 0.m4a\<close>: for
  the fields of a valid date with a four-digit year, the name is the four digits of the
  year, then month, day, hours, minutes and seconds as two decimal digits each (zero-padded),
  separated as in the pattern, and it ends in the constant disambiguator \<open>0\<close> and the
  extension; its length is 25. Both revisions of \<open>getFormattedFileName\<close> give this name,
  which depends on the date and on nothing else, so no counter enters it.
\<close>

theorem artifact_name_format:
  assumes "validDate now" and "1000 \<le> getFullYear now" and "getFullYear now \<le> 9999"
  shows "getFormattedFileName now =
      fourDigits (nat (getFullYear now)) @ ''-'' @ twoDigits (getMonth now + 1) @ ''-'' @
      twoDigits (getDate now) @ '' '' @ twoDigits (getHours now) @ ''-'' @
      twoDigits (getMinutes now) @ ''-'' @ twoDigits (getSeconds now) @ '' 0.m4a'' \<and>
    getFormattedFileName_v1 now = getFormattedFileName now \<and>
    list_all isDigit (fourDigits (nat (getFullYear now))) \<and>
    list_all isDigit (twoDigits (getMonth now + 1)) \<and>
    list_all isDigit (twoDigits (getDate now)) \<and>
    list_all isDigit (twoDigits (getHours now)) \<and>
    list_all isDigit (twoDigits (getMinutes now)) \<and>
    list_all isDigit (twoDigits (getSeconds now)) \<and>
    length (getFormattedFileName now) = 25 \<and>
    endsWith (getFormattedFileName now) '' 0.m4a''"
proof -
  have y: "toString (getFullYear now) = fourDigits (nat (getFullYear now))"
    using assms(2,3) by (simp add: toString_def toString_nat_four)
  have eq: "getFormattedFileName now =
      fourDigits (nat (getFullYear now)) @ ''-'' @ twoDigits (getMonth now + 1) @ ''-'' @
      twoDigits (getDate now) @ '' '' @ twoDigits (getHours now) @ ''-'' @
      twoDigits (getMinutes now) @ ''-'' @ twoDigits (getSeconds now) @ '' 0.m4a''"
    using getFormattedFileName_eq [OF assms(1)] y by simp
  have v: "getFormattedFileName_v1 now = getFormattedFileName now"
    by (rule getFormattedFileName_versions)
  have d0: "list_all isDigit (fourDigits (nat (getFullYear now)))"
    using assms(2,3) by (intro fourDigits_digits) simp
  have d1: "list_all isDigit (twoDigits (getMonth now + 1))"
    using assms(1) by (intro twoDigits_digits) (simp add: validDate_def)
  have d2: "list_all isDigit (twoDigits (getDate now))"
    using assms(1) by (intro twoDigits_digits) (simp add: validDate_def)
  have d3: "list_all isDigit (twoDigits (getHours now))"
    using assms(1) by (intro twoDigits_digits) (simp add: validDate_def)
  have d4: "list_all isDigit (twoDigits (getMinutes now))"
    using assms(1) by (intro twoDigits_digits) (simp add: validDate_def)
  have d5: "list_all isDigit (twoDigits (getSeconds now))"
    using assms(1) by (intro twoDigits_digits) (simp add: validDate_def)
  have len: "length (getFormattedFileName now) = 25"
    by (simp add: eq fourDigits_def twoDigits_def)
  have suffix: "endsWith (getFormattedFileName now) '' 0.m4a''"
    by (simp add: eq endsWith_def fourDigits_def twoDigits_def)
  from eq v d0 d1 d2 d3 d4 d5 len suffix show ?thesis by blast
qed

theorem artifact_name_format_witness:
  "validDate (mkDate 2024 0 5 9 3 7 120) \<and>
   getFormattedFileName (mkDate 2024 0 5 9 3 7 120) = ''2024-01-05 09-03-07 0.m4a'' \<and>
   getFormattedFileName_v1 (mkDate 2024 0 5 9 3 7 120) = ''2024-01-05 09-03-07 0.m4a''"
proof -
  have v: "validDate (mkDate 2024 0 5 9 3 7 120)"
    by (simp add: validDate_def mkDate_def)
  have "1000 \<le> getFullYear (mkDate 2024 0 5 9 3 7 120)"
    and "getFullYear (mkDate 2024 0 5 9 3 7 120) \<le> 9999"
    by (simp_all add: mkDate_def)
  from artifact_name_format [OF v this] v show ?thesis
    by (simp add: mkDate_def fourDigits_def twoDigits_def digitChar_def)
qed

section \<open>Deleting\<close>

lemma loadRecordings_p002_calls:
  "\<exists>rest. calls (snd (loadRecordings_p002 pf s st loc w)) = calls w @ rest"
  by (auto simp: loadRecordings_p002_def Let_def platform_defs split: prod.splits sum.splits)

lemma loadRecordings_tabs_calls:
  "\<exists>rest. calls (snd (loadRecordings_tabs pf s st loc w)) = calls w @ rest"
  by (auto simp: loadRecordings_tabs_def Let_def platform_defs split: prod.splits sum.splits)

lemma loadRecordings_p001_calls:
  "\<exists>rest. calls (snd (loadRecordings_p001 pf st w)) = calls w @ rest"
  by (auto simp: loadRecordings_p001_def Let_def platform_defs split: prod.splits sum.splits option.splits)

lemma deleteFile_calls: "calls (snd (deleteFile u i w)) = calls w"
  by (auto simp: deleteFile_def split: option.splits prod.splits)

lemma deleteRecording_p002_first:
  "\<exists>rest. calls (snd (deleteRecording_p002 pf s u w)) =
     calls w @ (if startsWith u ''content://'' then SafDelete u else Delete u False) # rest"
proof (cases "startsWith u ''content://''")
  case True
  obtain r w1 where d: "SAF_deleteAsync u w = (r, w1)" by (cases "SAF_deleteAsync u w")
  then have c1: "calls w1 = calls w @ [SafDelete u]"
    using deleteFile_calls [of u False "logCall (SafDelete u) w"]
    by (simp add: SAF_deleteAsync_def logCall_def)
  show ?thesis
  proof (cases r)
    case (Inl e)
    then show ?thesis using True d c1 by (simp add: deleteRecording_p002_def alert_def logCall_def)
  next
    case (Inr x)
    obtain st2 w2 where l: "loadRecordings_p002 pf s s None w1 = (st2, w2)"
      by (cases "loadRecordings_p002 pf s s None w1")
    from loadRecordings_p002_calls [of pf s s None w1] l obtain rest
      where "calls w2 = calls w1 @ rest" by auto
    then show ?thesis using True d c1 Inr l
      by (simp add: deleteRecording_p002_def alert_def logCall_def)
  qed
next
  case False
  obtain r w1 where d: "FileSystem_deleteAsync u False w = (r, w1)"
    by (cases "FileSystem_deleteAsync u False w")
  then have c1: "calls w1 = calls w @ [Delete u False]"
    using deleteFile_calls [of u False "logCall (Delete u False) w"]
    by (simp add: FileSystem_deleteAsync_def logCall_def)
  show ?thesis
  proof (cases r)
    case (Inl e)
    then show ?thesis using False d c1 by (simp add: deleteRecording_p002_def alert_def logCall_def)
  next
    case (Inr x)
    obtain st2 w2 where l: "loadRecordings_p002 pf s s None w1 = (st2, w2)"
      by (cases "loadRecordings_p002 pf s s None w1")
    from loadRecordings_p002_calls [of pf s s None w1] l obtain rest
      where "calls w2 = calls w1 @ rest" by auto
    then show ?thesis using False d c1 Inr l
      by (simp add: deleteRecording_p002_def alert_def logCall_def)
  qed
qed

lemma deleteRecording_tabs_first:
  "\<exists>rest. calls (snd (deleteRecording_tabs pf s u w)) = calls w @ Delete u False # rest"
proof -
  obtain r w1 where d: "FileSystem_deleteAsync u False w = (r, w1)"
    by (cases "FileSystem_deleteAsync u False w")
  then have c1: "calls w1 = calls w @ [Delete u False]"
    using deleteFile_calls [of u False "logCall (Delete u False) w"]
    by (simp add: FileSystem_deleteAsync_def logCall_def)
  show ?thesis
  proof (cases r)
    case (Inl e)
    then show ?thesis using d c1 by (simp add: deleteRecording_tabs_def alert_def logCall_def)
  next
    case (Inr x)
    obtain st2 w2 where l: "loadRecordings_tabs pf s s None w1 = (st2, w2)"
      by (cases "loadRecordings_tabs pf s s None w1")
    from loadRecordings_tabs_calls [of pf s s None w1] l obtain rest
      where "calls w2 = calls w1 @ rest" by auto
    then show ?thesis using d c1 Inr l
      by (simp add: deleteRecording_tabs_def alert_def logCall_def)
  qed
qed

lemma deleteRecording_p001_first:
  "\<exists>rest. calls (snd (deleteRecording_p001 pf s u w)) = calls w @ Delete u False # rest"
proof -
  obtain r w1 where d: "FileSystem_deleteAsync u False w = (r, w1)"
    by (cases "FileSystem_deleteAsync u False w")
  then have c1: "calls w1 = calls w @ [Delete u False]"
    using deleteFile_calls [of u False "logCall (Delete u False) w"]
    by (simp add: FileSystem_deleteAsync_def logCall_def)
  show ?thesis
  proof (cases r)
    case (Inl e)
    then show ?thesis using d c1 by (simp add: deleteRecording_p001_def alert_def logCall_def)
  next
    case (Inr x)
    obtain st2 w2 where l: "loadRecordings_p001 pf s w1 = (st2, w2)"
      by (cases "loadRecordings_p001 pf s w1")
    from loadRecordings_p001_calls [of pf s w1] l obtain rest
      where "calls w2 = calls w1 @ rest" by auto
    then show ?thesis using d c1 Inr l
      by (simp add: deleteRecording_p001_def alert_def logCall_def)
  qed
qed

text \<open>
  Claim C6, as amended. The first call the Delete handler makes is the deletion. In the
  latest revision it goes to the storage access framework for a reference that starts
  with \<open>content://\<close> and to the file system for any other; in the two earlier
  revisions it goes to the file system whatever the reference is.
\<close>

theorem delete_dispatch:
  "take 1 (newCalls w (snd (deleteRecording_p002 pf s u w))) =
     [if startsWith u ''content://'' then SafDelete u else Delete u False] \<and>
   take 1 (newCalls w (snd (deleteRecording_tabs pf s u w))) = [Delete u False] \<and>
   take 1 (newCalls w (snd (deleteRecording_p001 pf s u w))) = [Delete u False]"
  using deleteRecording_p002_first [of pf s u w] deleteRecording_tabs_first [of pf s u w]
    deleteRecording_p001_first [of pf s u w]
  by (auto simp: newCalls_def)

text \<open>
  The claim as stated fails in the revision of \<open>app/(tabs)/recordings.tsx\<close>: a reference
  with the scoped scheme is deleted through the file system call, not the scoped one.
\<close>

theorem delete_dispatch_counterexample:
  "startsWith lostDocument ''content://'' \<and>
   take 1 (newCalls world0 (snd (deleteRecording_tabs device idleList lostDocument world0)))
     = [Delete lostDocument False] \<and>
   take 1 (newCalls world0 (snd (deleteRecording_tabs device idleList lostDocument world0)))
     \<noteq> [SafDelete lostDocument]"
  using deleteRecording_tabs_first [of device idleList lostDocument world0]
  by (auto simp: newCalls_def lostDocument_def startsWith_def world0_def)

theorem delete_dispatch_witness:
  "take 1 (newCalls world0 (snd (deleteRecording_p002 device idleList lostDocument world0)))
     = [SafDelete lostDocument] \<and>
   take 1 (newCalls world0 (snd (deleteRecording_p002 device idleList ''file:///cache/a.m4a'' world0)))
     = [Delete ''file:///cache/a.m4a'' False]"
  using delete_dispatch [of world0 device idleList lostDocument]
    delete_dispatch [of world0 device idleList "''file:///cache/a.m4a''"]
  by (simp add: lostDocument_def startsWith_def)

section \<open>A listing that fails\<close>

lemma loadRecordings_p002_location:
  "saveLocation_r (fst (loadRecordings_p002 pf s st loc w)) = saveLocation_r st \<or>
   saveLocation_r (fst (loadRecordings_p002 pf s st loc w)) = documentDirectoryOrEmpty pf"
  by (simp add: loadRecordings_p002_def Let_def split: prod.splits sum.splits)

text \<open>
  Claim C2, as amended. When the listing of a scoped location fails, \<open>loadRecordings\<close>
  of the latest revision has read the directory once and reads nothing again; it asks the
  key-value store to remove the \<open>saveLocation\<close> key. When the store removes it, the
  location of the screen is set to the document directory and the list is empty. When the
  store rejects the removal, the key and the location of the screen stay, the list is
  emptied and the alert \<open>Failed to load recordings\<close> is raised. The revision of
  \<open>app/(tabs)/recordings.tsx\<close> only shows the empty list: it makes no call but the one
  reading, so the key and the location stay. This fallback is not the only one: when the
  key-value store rejects the reading of the key, \<open>loadSaveLocation\<close> of the recorder
  sets the location to the document directory, and \<open>loadSaveLocationAndRecordings\<close>
  does so too and lists the document directory; neither touches the key.
\<close>

theorem scoped_listing_failure:
  "(startsWith (listLocation pf s loc) ''content://'' \<and>
    fst (SAF_readDirectoryAsync (listLocation pf s loc) w) = Inl e \<longrightarrow>
      (storageOk w \<longrightarrow>
         loadRecordings_p002 pf s st loc w =
           (st\<lparr>saveLocation_r := documentDirectoryOrEmpty pf, recordings := [], loading := False\<rparr>,
            w\<lparr>storage := AList.delete ''saveLocation'' (storage w),
              calls := calls w @
                [SafReadDirectory (listLocation pf s loc), RemoveItem ''saveLocation'']\<rparr>) \<and>
         map_of (storage (snd (loadRecordings_p002 pf s st loc w))) ''saveLocation'' = None) \<and>
      (\<not> storageOk w \<longrightarrow>
         loadRecordings_p002 pf s st loc w =
           (st\<lparr>recordings := [], loading := False\<rparr>,
            w\<lparr>calls := calls w @
                [SafReadDirectory (listLocation pf s loc), RemoveItem ''saveLocation'',
                 Alert ''Error'' ''Failed to load recordings'']\<rparr>)) \<and>
      loadRecordings_tabs pf s st loc w =
        (st\<lparr>recordings := [], loading := False\<rparr>,
         w\<lparr>calls := calls w @ [SafReadDirectory (listLocation pf s loc)]\<rparr>)) \<and>
   (\<not> storageOk w \<longrightarrow>
      loadSaveLocation pf ist w =
        (ist\<lparr>saveLocation := documentDirectoryOrEmpty pf\<rparr>,
         w\<lparr>calls := calls w @ [GetItem ''saveLocation'']\<rparr>) \<and>
      loadSaveLocationAndRecordings pf s w =
        loadRecordings_p002 pf s (s\<lparr>saveLocation_r := documentDirectoryOrEmpty pf\<rparr>)
          (Some (documentDirectoryOrEmpty pf)) (w\<lparr>calls := calls w @ [GetItem ''saveLocation'']\<rparr>) \<and>
      saveLocation_r (fst (loadSaveLocationAndRecordings pf s w)) = documentDirectoryOrEmpty pf \<and>
      storage (snd (loadSaveLocationAndRecordings pf s w)) = storage w)"
proof (intro conjI impI)
  assume a: "startsWith (listLocation pf s loc) ''content://'' \<and>
    fst (SAF_readDirectoryAsync (listLocation pf s loc) w) = Inl e"
  then obtain w1 where r: "SAF_readDirectoryAsync (listLocation pf s loc) w = (Inl e, w1)"
    by (cases "SAF_readDirectoryAsync (listLocation pf s loc) w") simp
  then have w1: "w1 = logCall (SafReadDirectory (listLocation pf s loc)) w"
    by (simp add: SAF_readDirectoryAsync_def)
  show "loadRecordings_tabs pf s st loc w =
      (st\<lparr>recordings := [], loading := False\<rparr>,
       w\<lparr>calls := calls w @ [SafReadDirectory (listLocation pf s loc)]\<rparr>)"
    using a r w1 by (simp add: loadRecordings_tabs_def logCall_def sortBy_def)
  {
    assume ok: "storageOk w"
    show p2: "loadRecordings_p002 pf s st loc w =
        (st\<lparr>saveLocation_r := documentDirectoryOrEmpty pf, recordings := [], loading := False\<rparr>,
         w\<lparr>storage := AList.delete ''saveLocation'' (storage w),
           calls := calls w @ [SafReadDirectory (listLocation pf s loc), RemoveItem ''saveLocation'']\<rparr>)"
      using a ok r w1
      by (simp add: loadRecordings_p002_def AsyncStorage_removeItem_def logCall_def sortBy_def)
    show "map_of (storage (snd (loadRecordings_p002 pf s st loc w))) ''saveLocation'' = None"
      by (simp add: p2 delete_conv)
  }
  {
    assume no: "\<not> storageOk w"
    show "loadRecordings_p002 pf s st loc w =
        (st\<lparr>recordings := [], loading := False\<rparr>,
         w\<lparr>calls := calls w @
             [SafReadDirectory (listLocation pf s loc), RemoveItem ''saveLocation'',
              Alert ''Error'' ''Failed to load recordings'']\<rparr>)"
      using a no r w1
      by (simp add: loadRecordings_p002_def AsyncStorage_removeItem_def logCall_def alert_def)
  }
next
  assume no: "\<not> storageOk w"
  show "loadSaveLocation pf ist w =
      (ist\<lparr>saveLocation := documentDirectoryOrEmpty pf\<rparr>,
       w\<lparr>calls := calls w @ [GetItem ''saveLocation'']\<rparr>)"
    using no by (simp add: loadSaveLocation_def AsyncStorage_getItem_def logCall_def)
  show l: "loadSaveLocationAndRecordings pf s w =
      loadRecordings_p002 pf s (s\<lparr>saveLocation_r := documentDirectoryOrEmpty pf\<rparr>)
        (Some (documentDirectoryOrEmpty pf)) (w\<lparr>calls := calls w @ [GetItem ''saveLocation'']\<rparr>)"
    using no by (simp add: loadSaveLocationAndRecordings_def AsyncStorage_getItem_def logCall_def)
  show "saveLocation_r (fst (loadSaveLocationAndRecordings pf s w)) = documentDirectoryOrEmpty pf"
    unfolding l
    using loadRecordings_p002_location [of pf s "s\<lparr>saveLocation_r := documentDirectoryOrEmpty pf\<rparr>"
        "Some (documentDirectoryOrEmpty pf)" "w\<lparr>calls := calls w @ [GetItem ''saveLocation'']\<rparr>"]
    by auto
  show "storage (snd (loadSaveLocationAndRecordings pf s w)) = storage w"
    unfolding l using no
    by (simp add: loadRecordings_p002_def Let_def AsyncStorage_removeItem_def
        SAF_readDirectoryAsync_def FileSystem_readDirectoryAsync_def logCall_def alert_def
        split: prod.splits sum.splits)
qed

lemma revoked_fails: "fst (SAF_readDirectoryAsync treeUri worldRevoked) = Inl PermissionError"
  by (simp add: SAF_readDirectoryAsync_def worldRevoked_def world0_def)

lemma listScoped_location: "listLocation device listScoped None = treeUri"
  by (simp add: listLocation_def listScoped_def idleList_def orElseOpt_def orElse_def treeUri_def)

lemma treeUri_content: "startsWith treeUri ''content://''"
  by (simp add: treeUri_def startsWith_def)

text \<open>
  The claim as stated fails three times. In the revision of
  \<open>app/(tabs)/recordings.tsx\<close> the listing of the revoked tree fails and the key still
  names the tree afterwards, as does the location of the screen. In the latest revision
  the same holds when the key-value store rejects the removal. And the recorder and the
  recordings screen fall back to the document directory where no listing has failed: the
  store names the tree and rejects the reading of the key.
\<close>

theorem scoped_listing_failure_counterexample:
  "fst (SAF_readDirectoryAsync (listLocation device listScoped None) worldRevoked)
     = Inl PermissionError \<and>
   map_of (storage (snd (loadRecordings_tabs device listScoped listScoped None worldRevoked)))
     ''saveLocation'' = Some treeUri \<and>
   saveLocation_r (fst (loadRecordings_tabs device listScoped listScoped None worldRevoked))
     = treeUri \<and>
   fst (SAF_readDirectoryAsync (listLocation device listScoped None) worldRevokedNoStore)
     = Inl PermissionError \<and>
   map_of (storage (snd (loadRecordings_p002 device listScoped listScoped None worldRevokedNoStore)))
     ''saveLocation'' = Some treeUri \<and>
   saveLocation_r (fst (loadRecordings_p002 device listScoped listScoped None worldRevokedNoStore))
     = treeUri \<and>
   newCalls worldRevokedNoStore
       (snd (loadRecordings_p002 device listScoped listScoped None worldRevokedNoStore))
     = [SafReadDirectory treeUri, RemoveItem ''saveLocation'',
        Alert ''Error'' ''Failed to load recordings''] \<and>
   saveLocation (fst (loadSaveLocation device scopedRecorder worldNoStore)) = docDir \<and>
   newCalls worldNoStore (snd (loadSaveLocation device scopedRecorder worldNoStore))
     = [GetItem ''saveLocation''] \<and>
   saveLocation_r (fst (loadSaveLocationAndRecordings device listScoped worldNoStore)) = docDir \<and>
   newCalls worldNoStore (snd (loadSaveLocationAndRecordings device listScoped worldNoStore))
     = [GetItem ''saveLocation'', ReadDirectory docDir]"
  by code_simp

text \<open>
  The revoked tree with a working store: the key is removed and the screen is at the
  document directory; and the fallback of the two resolvers where the store rejects.
\<close>

theorem scoped_listing_failure_witness:
  "startsWith (listLocation device listScoped None) ''content://'' \<and>
   fst (SAF_readDirectoryAsync (listLocation device listScoped None) worldRevoked)
     = Inl PermissionError \<and>
   storageOk worldRevoked \<and>
   map_of (storage worldRevoked) ''saveLocation'' = Some treeUri \<and>
   map_of (storage (snd (loadRecordings_p002 device listScoped listScoped None worldRevoked)))
     ''saveLocation'' = None \<and>
   saveLocation_r (fst (loadRecordings_p002 device listScoped listScoped None worldRevoked))
     = docDir \<and>
   recordings (fst (loadRecordings_p002 device listScoped listScoped None worldRevoked)) = [] \<and>
   newCalls worldRevoked (snd (loadRecordings_p002 device listScoped listScoped None worldRevoked))
     = [SafReadDirectory treeUri, RemoveItem ''saveLocation''] \<and>
   \<not> storageOk worldNoStore \<and>
   saveLocation (fst (loadSaveLocation device scopedRecorder worldNoStore)) = docDir \<and>
   saveLocation_r (fst (loadSaveLocationAndRecordings device listScoped worldNoStore)) = docDir"
proof -
  have a: "startsWith (listLocation device listScoped None) ''content://''"
    by (simp add: listScoped_location treeUri_content)
  have b: "fst (SAF_readDirectoryAsync (listLocation device listScoped None) worldRevoked)
      = Inl PermissionError"
    by (simp add: listScoped_location revoked_fails)
  have c: "storageOk worldRevoked" by (simp add: worldRevoked_def world0_def)
  have d: "documentDirectoryOrEmpty device = docDir"
    by (simp add: documentDirectoryOrEmpty_def device_def orElseOpt_def orElse_def docDir_def)
  have n: "\<not> storageOk worldNoStore" by (simp add: worldNoStore_def)
  from scoped_listing_failure [of device listScoped None worldRevoked PermissionError listScoped] a b c
  have p: "loadRecordings_p002 device listScoped listScoped None worldRevoked =
      (listScoped\<lparr>saveLocation_r := documentDirectoryOrEmpty device, recordings := [],
         loading := False\<rparr>,
       worldRevoked\<lparr>storage := AList.delete ''saveLocation'' (storage worldRevoked),
         calls := calls worldRevoked @
           [SafReadDirectory (listLocation device listScoped None), RemoveItem ''saveLocation'']\<rparr>)"
    by blast
  from scoped_listing_failure [of device listScoped None worldNoStore PermissionError listScoped
      scopedRecorder] n
  have q: "loadSaveLocation device scopedRecorder worldNoStore =
        (scopedRecorder\<lparr>saveLocation := documentDirectoryOrEmpty device\<rparr>,
         worldNoStore\<lparr>calls := calls worldNoStore @ [GetItem ''saveLocation'']\<rparr>)"
    and r: "saveLocation_r (fst (loadSaveLocationAndRecordings device listScoped worldNoStore))
      = documentDirectoryOrEmpty device"
    by blast+
  have m: "map_of (storage worldRevoked) ''saveLocation'' = Some treeUri"
    by (simp add: worldRevoked_def)
  show ?thesis
    using a b c n m
    by (simp add: p q r d newCalls_def listScoped_location delete_conv)
qed

text \<open>
  A plain location whose listing fails is not healed: the key and the location of the
  screen stay, the list is empty.
\<close>

lemma plain_listing_failure:
  assumes "\<not> startsWith (listLocation pf s loc) ''content://''"
    and "fst (FileSystem_readDirectoryAsync (listLocation pf s loc) w) = Inl e"
  shows "storage (snd (loadRecordings_p002 pf s st loc w)) = storage w \<and>
    saveLocation_r (fst (loadRecordings_p002 pf s st loc w)) = saveLocation_r st \<and>
    recordings (fst (loadRecordings_p002 pf s st loc w)) = []"
proof -
  from assms(2) obtain w1 where r: "FileSystem_readDirectoryAsync (listLocation pf s loc) w = (Inl e, w1)"
    by (cases "FileSystem_readDirectoryAsync (listLocation pf s loc) w") simp
  then have w1: "w1 = logCall (ReadDirectory (listLocation pf s loc)) w"
    by (simp add: FileSystem_readDirectoryAsync_def)
  show ?thesis using assms(1) r w1
    by (simp add: loadRecordings_p002_def alert_def logCall_def)
qed

section \<open>Resetting the location\<close>


lemma file_not_content:
  assumes "startsWith d ''file://''"
  shows "\<not> startsWith d ''content://''" and "d \<noteq> []"
proof -
  from assms have h: "hd d = CHR ''f'' \<and> d \<noteq> []"
    by (cases d) (auto simp: startsWith_def)
  then show "d \<noteq> []" by simp
  show "\<not> startsWith d ''content://''"
  proof
    assume "startsWith d ''content://''"
    then have "hd d = CHR ''c''" by (cases d) (auto simp: startsWith_def)
    with h show False by simp
  qed
qed

lemma createLockFile_plain:
  assumes "\<not> startsWith (targetLocation pf s) ''content://''"
  shows "noSafCalls (newCalls w (snd (snd (createLockFile pf s st w))))"
  using assms
  by (auto simp: createLockFile_def Let_def FileSystem_writeAsStringAsync_def writeFile_def
      logCall_def newCalls_def noSafCalls_def isSafCall_def split: prod.splits sum.splits option.splits)

lemma removeLockFile_plain:
  assumes "\<not> startsWith (targetLocation pf s) ''content://''"
  shows "noSafCalls (newCalls w (snd (removeLockFile pf s st w)))"
  using assms
  by (auto simp: removeLockFile_def Let_def FileSystem_deleteAsync_def deleteFile_def
      logCall_def newCalls_def noSafCalls_def isSafCall_def split: prod.splits sum.splits option.splits)

lemma saveRecording_plain:
  assumes "\<not> startsWith (targetLocation pf s) ''content://''"
  shows "noSafCalls (newCalls w (saveRecording pf now s u w))"
  using assms
  by (auto simp: saveRecording_def saveFile_def Let_def FileSystem_copyAsync_def writeFile_def
      readFile_def alert_def
      logCall_def newCalls_def noSafCalls_def isSafCall_def split: prod.splits sum.splits option.splits)

lemma loadRecordings_plain:
  assumes "\<not> startsWith (listLocation pf s loc) ''content://''"
  shows "noSafCalls (newCalls w (snd (loadRecordings_p002 pf s st loc w)))"
  using assms
  by (auto simp: loadRecordings_p002_def Let_def FileSystem_readDirectoryAsync_def alert_def
      logCall_def newCalls_def noSafCalls_def isSafCall_def split: prod.splits sum.splits option.splits)

lemma getInfoAsync_same:
  assumes "files w' = files w" and "documents w' = documents w"
  shows "FileSystem_getInfoAsync u (logCall c w') = FileSystem_getInfoAsync u (logCall c w)"
  using assms by (simp add: FileSystem_getInfoAsync_def logCall_def)

lemma readDirectoryAsync_pair:
  "FileSystem_readDirectoryAsync d w =
     (fst (FileSystem_readDirectoryAsync d w), logCall (ReadDirectory d) w)"
  by (simp add: FileSystem_readDirectoryAsync_def)

lemma readDirectoryAsync_same:
  assumes "files w' = files w" and "dirs w' = dirs w"
  shows "fst (FileSystem_readDirectoryAsync d w') = fst (FileSystem_readDirectoryAsync d w)"
  using assms by (simp add: FileSystem_readDirectoryAsync_def)

lemma loadRecordings_p002_plain_state:
  assumes "\<not> startsWith (listLocation pf s loc) ''content://''"
    and "files w' = files w" and "dirs w' = dirs w" and "documents w' = documents w"
  shows "fst (loadRecordings_p002 pf s st loc w') = fst (loadRecordings_p002 pf s st loc w)"
proof -
  let ?d = "listLocation pf s loc"
  have r: "fst (FileSystem_readDirectoryAsync ?d w') = fst (FileSystem_readDirectoryAsync ?d w)"
    by (rule readDirectoryAsync_same [OF assms(2,3)])
  note g = getInfoAsync_same [OF assms(2,4)]
  show ?thesis
  proof (cases "fst (FileSystem_readDirectoryAsync ?d w)")
    case (Inl e)
    then show ?thesis
      using assms(1) r
      by (subst (1 2) loadRecordings_p002_def, subst (1 2) readDirectoryAsync_pair)
        (simp add: Let_def)
  next
    case (Inr fs)
    then show ?thesis
      using assms(1) r
      by (subst (1 2) loadRecordings_p002_def, subst (1 2) readDirectoryAsync_pair)
        (simp add: Let_def g)
  qed
qed

lemma loadSaveLocationAndRecordings_default:
  assumes "documentDirectory pf = Some d" and "d \<noteq> []" and "\<not> startsWith d ''content://''"
    and "map_of (storage w) ''saveLocation'' = Some d \<or> map_of (storage w) ''saveLocation'' = None"
  shows "loadSaveLocationAndRecordings pf rs w =
    loadRecordings_p002 pf rs (rs\<lparr>saveLocation_r := d\<rparr>) (Some d)
      (logCall (GetItem ''saveLocation'') w)"
  using assms
  by (auto simp: loadSaveLocationAndRecordings_def AsyncStorage_getItem_def
      documentDirectoryOrEmpty_def orElseOpt_def orElse_def)

lemma resolve_recordings_as_absent:
  assumes "documentDirectory pf = Some d" and "d \<noteq> []" and "\<not> startsWith d ''content://''"
    and "map_of (storage w) ''saveLocation'' = Some d"
  shows "fst (loadSaveLocationAndRecordings pf rs w) =
    fst (loadSaveLocationAndRecordings pf rs (keyAbsent w))"
proof -
  have ka: "map_of (storage (keyAbsent w)) ''saveLocation'' = None"
    by (simp add: keyAbsent_def delete_conv')
  have ll: "listLocation pf rs (Some d) = d"
    using assms(2) by (simp add: listLocation_def orElseOpt_def orElse_def)
  have "fst (loadRecordings_p002 pf rs (rs\<lparr>saveLocation_r := d\<rparr>) (Some d)
          (logCall (GetItem ''saveLocation'') (keyAbsent w))) =
        fst (loadRecordings_p002 pf rs (rs\<lparr>saveLocation_r := d\<rparr>) (Some d)
          (logCall (GetItem ''saveLocation'') w))"
    by (rule loadRecordings_p002_plain_state)
      (simp_all add: ll assms(3) logCall_def keyAbsent_def)
  then show ?thesis
    using assms(4) ka
    by (simp add: loadSaveLocationAndRecordings_default [OF assms(1,2,3)])
qed

lemma resetToDefault_eq:
  assumes "storageOk w" and "documentDirectory pf = Some d"
  shows "resetToDefault pf st w =
    (st\<lparr>saveLocation_s := d\<rparr>,
     w\<lparr>storage := AList.update ''saveLocation'' d (storage w),
       calls := calls w @ [SetItem ''saveLocation'' d, Alert ''Success'' ''Reset to default location!'']\<rparr>)"
  using assms
  by (simp add: resetToDefault_def documentDirectoryOrEmpty_def orElseOpt_def orElse_def
      AsyncStorage_setItem_def alert_def logCall_def)

lemma loadSaveLocation_default:
  assumes "documentDirectory pf = Some d" and "d \<noteq> []"
    and "map_of (storage w) ''saveLocation'' = Some d \<or> map_of (storage w) ''saveLocation'' = None"
  shows "loadSaveLocation pf ist w = (ist\<lparr>saveLocation := d\<rparr>, logCall (GetItem ''saveLocation'') w)"
  using assms
  by (auto simp: loadSaveLocation_def documentDirectoryOrEmpty_def orElseOpt_def orElse_def
      AsyncStorage_getItem_def)

lemma loadSettings_default:
  assumes "documentDirectory pf = Some d" and "d \<noteq> []"
    and "map_of (storage w) ''saveLocation'' = Some d \<or> map_of (storage w) ''saveLocation'' = None"
  shows "fst (loadSettings pf sst w) =
    (if storageOk w then sst\<lparr>saveLocation_s := d, isLoading := False\<rparr> else sst\<lparr>isLoading := False\<rparr>)"
  using assms
  by (auto simp: loadSettings_def documentDirectoryOrEmpty_def orElseOpt_def orElse_def
      AsyncStorage_getItem_def)

text \<open>
  After a reset with a working store the key holds the document directory, the three
  resolvers give what they give for an absent key, and the recorder and the list make no
  call of the storage access framework.
\<close>

lemma reset_resolves_as_absent:
  assumes "storageOk w" and "documentDirectory pf = Some d" and "startsWith d ''file://''"
  shows "map_of (storage (snd (resetToDefault pf st w))) ''saveLocation'' = Some d \<and>
    saveLocation_s (fst (resetToDefault pf st w)) = d \<and>
    \<not> startsWith d ''content://'' \<and>
    saveLocation (fst (loadSaveLocation pf ist (snd (resetToDefault pf st w)))) = d \<and>
    fst (loadSaveLocation pf ist (snd (resetToDefault pf st w)))
      = fst (loadSaveLocation pf ist (keyAbsent (snd (resetToDefault pf st w)))) \<and>
    fst (loadSettings pf sst (snd (resetToDefault pf st w)))
      = fst (loadSettings pf sst (keyAbsent (snd (resetToDefault pf st w)))) \<and>
    fst (loadSaveLocationAndRecordings pf rs (snd (resetToDefault pf st w)))
      = fst (loadSaveLocationAndRecordings pf rs (keyAbsent (snd (resetToDefault pf st w)))) \<and>
    noSafCalls (newCalls w2 (snd (snd (createLockFile pf
      (fst (loadSaveLocation pf ist (snd (resetToDefault pf st w)))) ist2 w2)))) \<and>
    noSafCalls (newCalls w2 (saveRecording pf now
      (fst (loadSaveLocation pf ist (snd (resetToDefault pf st w)))) u w2)) \<and>
    noSafCalls (newCalls w2 (snd (removeLockFile pf
      (fst (loadSaveLocation pf ist (snd (resetToDefault pf st w)))) ist2 w2))) \<and>
    noSafCalls (newCalls w2 (snd (loadRecordings_p002 pf rs rst (Some d) w2)))"
proof -
  note nc = file_not_content [OF assms(3)]
  let ?w1 = "snd (resetToDefault pf st w)"
  have r: "resetToDefault pf st w =
    (st\<lparr>saveLocation_s := d\<rparr>,
     w\<lparr>storage := AList.update ''saveLocation'' d (storage w),
       calls := calls w @ [SetItem ''saveLocation'' d, Alert ''Success'' ''Reset to default location!'']\<rparr>)"
    by (rule resetToDefault_eq [OF assms(1,2)])
  have k: "map_of (storage ?w1) ''saveLocation'' = Some d"
    by (simp add: r update_conv')
  have ka: "map_of (storage (keyAbsent ?w1)) ''saveLocation'' = None"
    by (simp add: keyAbsent_def delete_conv')
  have ok: "storageOk (keyAbsent ?w1) = storageOk ?w1" by (simp add: keyAbsent_def)
  have l1: "loadSaveLocation pf ist ?w1 = (ist\<lparr>saveLocation := d\<rparr>, logCall (GetItem ''saveLocation'') ?w1)"
    using k by (intro loadSaveLocation_default [OF assms(2) nc(2)]) simp
  have l2: "loadSaveLocation pf ist (keyAbsent ?w1) =
      (ist\<lparr>saveLocation := d\<rparr>, logCall (GetItem ''saveLocation'') (keyAbsent ?w1))"
    using ka by (intro loadSaveLocation_default [OF assms(2) nc(2)]) simp
  have s1: "fst (loadSettings pf sst ?w1) = fst (loadSettings pf sst (keyAbsent ?w1))"
    using k ka ok by (simp add: loadSettings_default [OF assms(2) nc(2)])
  have s2: "fst (loadSaveLocationAndRecordings pf rs ?w1)
      = fst (loadSaveLocationAndRecordings pf rs (keyAbsent ?w1))"
    by (rule resolve_recordings_as_absent [OF assms(2) nc(2) nc(1) k])
  have t: "targetLocation pf (ist\<lparr>saveLocation := d\<rparr>) = d"
    using nc(2) by (simp add: targetLocation_def orElse_def)
  have ll: "listLocation pf rs (Some d) = d"
    using nc(2) by (simp add: listLocation_def orElseOpt_def orElse_def)
  have c1: "noSafCalls (newCalls w2 (snd (snd (createLockFile pf (ist\<lparr>saveLocation := d\<rparr>) ist2 w2))))"
    by (rule createLockFile_plain) (simp add: t nc(1))
  have c2: "noSafCalls (newCalls w2 (saveRecording pf now (ist\<lparr>saveLocation := d\<rparr>) u w2))"
    by (rule saveRecording_plain) (simp add: t nc(1))
  have c3: "noSafCalls (newCalls w2 (snd (removeLockFile pf (ist\<lparr>saveLocation := d\<rparr>) ist2 w2)))"
    by (rule removeLockFile_plain) (simp add: t nc(1))
  have c4: "noSafCalls (newCalls w2 (snd (loadRecordings_p002 pf rs rst (Some d) w2)))"
    by (rule loadRecordings_plain) (simp add: ll nc(1))
  have a1: "saveLocation_s (fst (resetToDefault pf st w)) = d" by (simp add: r)
  have a2: "saveLocation (fst (loadSaveLocation pf ist ?w1)) = d" by (simp add: l1)
  have a3: "fst (loadSaveLocation pf ist ?w1) = fst (loadSaveLocation pf ist (keyAbsent ?w1))"
    by (simp add: l1 l2)
  have f: "fst (loadSaveLocation pf ist ?w1) = ist\<lparr>saveLocation := d\<rparr>" by (simp add: l1)
  show ?thesis
    unfolding f [symmetric] using k a1 nc(1) a2 a3 s1 s2 c1 c2 c3 c4 unfolding f by blast
qed

section \<open>Stopping a recording\<close>

lemma startsWith_append:
  assumes "startsWith (t @ x) c" and "x \<noteq> []" and "hd x \<notin> set c"
  shows "startsWith t c"
proof (cases "length c \<le> length t")
  case True
  with assms(1) show ?thesis by (simp add: startsWith_def)
next
  case False
  then have n: "take (length c - length t) x \<noteq> []" using assms(2) by simp
  have "take (length c) (t @ x) = c" using assms(1) by (simp add: startsWith_def)
  then have e: "t @ take (length c - length t) x = c" using False by simp
  have "hd (take (length c - length t) x) = hd x" using False by (simp add: hd_take)
  moreover have "hd (take (length c - length t) x) \<in> set (take (length c - length t) x)"
    using n by (rule hd_in_set)
  then have "hd (take (length c - length t) x) \<in> set (t @ take (length c - length t) x)"
    by simp
  ultimately have "hd x \<in> set c" using e by metis
  with assms(3) show ?thesis by simp
qed


lemma writeFile_calls: "calls (snd (writeFile u t w)) = calls w"
  by (simp add: writeFile_def split: option.splits prod.splits)



lemma FileSystem_writeAsStringAsync_calls:
  "calls (snd (FileSystem_writeAsStringAsync u t w)) = calls w @ [WriteAsString u t]"
  by (simp add: FileSystem_writeAsStringAsync_def writeFile_calls logCall_def)

lemma FileSystem_copyAsync_calls:
  "calls (snd (FileSystem_copyAsync src dst w)) = calls w @ [Copy src dst]"
  by (simp add: FileSystem_copyAsync_def writeFile_calls logCall_def split: sum.splits)

lemma FileSystem_deleteAsync_calls:
  "calls (snd (FileSystem_deleteAsync u i w)) = calls w @ [Delete u i]"
  by (simp add: FileSystem_deleteAsync_def deleteFile_calls logCall_def)


lemma saveRecording_calls:
  "calls (saveRecording pf now s u w) = calls (snd (saveFile pf now s u w)) @
     [case fst (saveFile pf now s u w) of
        Inl e \<Rightarrow> Alert ''Save Error'' ''Failed to save recording. Check console for details.''
      | Inr x \<Rightarrow> Alert ''Recording Saved'' (''Recording saved as: '' @ getFormattedFileName now)]"
  by (simp add: saveRecording_def alert_def logCall_def split: prod.splits sum.splits)





lemma stopDate_name: "getFormattedFileName stopDate = ''2024-01-05 09-03-07 0.m4a''"
  by (simp add: stopDate_def mkDate_def getFormattedFileName_def padStart_def toString_def
      toString_nat.simps digitChar_def)



section \<open>Runs of the recorder\<close>

lemma startedScoped_eq:
  "startedScoped =
    (scopedRecorder\<lparr>lockFileName := ''recording.lock'',
       recording := Some (AudioRecording (Some ''file:///cache/a.m4a'')), isRecording := True\<rparr>,
     world0\<lparr>documents := [(lockDocument, treeUri, ''RECORDING_IN_PROGRESS'')],
       calls := [RequestPermissions, SetAudioMode,
         SafCreateFile treeUri ''recording.lock'' ''text/plain'',
         WriteAsString lockDocument ''RECORDING_IN_PROGRESS'', RecordingCreate]\<rparr>)"
  unfolding startedScoped_def by code_simp

lemma stoppedScoped_eq:
  "stoppedScoped =
    (scopedRecorder,
     world0\<lparr>documents := [(lockDocument, treeUri, ''RECORDING_IN_PROGRESS''),
         (artifactDocument, treeUri, ''first'')],
       calls := [RequestPermissions, SetAudioMode,
         SafCreateFile treeUri ''recording.lock'' ''text/plain'',
         WriteAsString lockDocument ''RECORDING_IN_PROGRESS'', RecordingCreate, StopAndUnload,
         SafCreateFile treeUri ''2024-01-05 09-03-07 0.m4a'' ''audio/m4a'',
         ReadAsString ''file:///cache/a.m4a'', WriteAsString artifactDocument ''first'',
         Alert ''Recording Saved'' ''Recording saved as: 2024-01-05 09-03-07 0.m4a'']\<rparr>)"
  unfolding stoppedScoped_def startedScoped_eq fst_conv snd_conv by code_simp

lemma restartedScoped_eq:
  "fst restartedScoped =
     scopedRecorder\<lparr>lockFileName := ''recording.lock'',
       recording := Some (AudioRecording (Some ''file:///cache/b.m4a'')), isRecording := True\<rparr> \<and>
   documents (snd restartedScoped) =
     [(lockDocument, treeUri, ''RECORDING_IN_PROGRESS''), (artifactDocument, treeUri, ''first''),
      (lockDocument2, treeUri, ''RECORDING_IN_PROGRESS'')] \<and>
   files (snd restartedScoped) = files world0 \<and> grants (snd restartedScoped) = [treeUri] \<and>
   captureOk (snd restartedScoped)"
  unfolding restartedScoped_def stoppedScoped_eq fst_conv snd_conv by code_simp

lemma restoppedScoped_eq:
  "documents (snd restoppedScoped) =
     [(lockDocument, treeUri, ''RECORDING_IN_PROGRESS''), (artifactDocument, treeUri, ''first''),
      (lockDocument2, treeUri, ''RECORDING_IN_PROGRESS''),
      (artifactDocument2, treeUri, ''second'')]"
  unfolding restoppedScoped_def restartedScoped_def stoppedScoped_eq fst_conv snd_conv
  by code_simp

lemma startedPlain_eq:
  "startedPlain =
    (plainRecorder\<lparr>lockFileName := ''recording.lock'',
       recording := Some (AudioRecording (Some ''file:///cache/a.m4a'')), isRecording := True\<rparr>,
     world0\<lparr>files := files world0 @ [(docDir @ ''recording.lock'',
           \<lparr>fcontent = ''RECORDING_IN_PROGRESS'', fmtime = 1700000000\<rparr>)],
       calls := [RequestPermissions, SetAudioMode,
         WriteAsString (docDir @ ''recording.lock'') ''RECORDING_IN_PROGRESS'', RecordingCreate]\<rparr>)"
  unfolding startedPlain_def by code_simp

lemma stoppedPlain_eq:
  "stoppedPlain =
    (plainRecorder,
     world0\<lparr>files := files world0 @ [(artifactFile, \<lparr>fcontent = ''first'', fmtime = 1700000000\<rparr>)],
       calls := [RequestPermissions, SetAudioMode,
         WriteAsString (docDir @ ''recording.lock'') ''RECORDING_IN_PROGRESS'', RecordingCreate,
         StopAndUnload, Copy ''file:///cache/a.m4a'' artifactFile,
         Alert ''Recording Saved'' ''Recording saved as: 2024-01-05 09-03-07 0.m4a'',
         Delete (docDir @ ''recording.lock'') True]\<rparr>)"
  unfolding stoppedPlain_def startedPlain_eq fst_conv snd_conv by code_simp

lemma restartedPlain_eq:
  "fst restartedPlain =
     plainRecorder\<lparr>lockFileName := ''recording.lock'',
       recording := Some (AudioRecording (Some ''file:///cache/b.m4a'')), isRecording := True\<rparr> \<and>
   files (snd restartedPlain) =
     files world0 @ [(artifactFile, \<lparr>fcontent = ''first'', fmtime = 1700000000\<rparr>),
       (docDir @ ''recording.lock'', \<lparr>fcontent = ''RECORDING_IN_PROGRESS'', fmtime = 1700000000\<rparr>)]"
  unfolding restartedPlain_def stoppedPlain_eq fst_conv snd_conv by code_simp

lemma restoppedPlain_eq:
  "files (snd restoppedPlain) =
     files world0 @ [(artifactFile, \<lparr>fcontent = ''second'', fmtime = 1700000000\<rparr>)]"
  unfolding restoppedPlain_def restartedPlain_def stoppedPlain_eq fst_conv snd_conv
  by code_simp

section \<open>The lock marker\<close>

text \<open>
  Claim C1, evaluated where it fails. With a scoped directory as the location, starting
  a recording creates one lock marker in the tree before the capture begins; stopping it
  clears the lock name of the screen and makes no deleting call, so the marker is still
  in the tree, with its content, after the run; a second start then creates a second
  marker beside it. With the document directory as the location the marker is written on
  start and deleted on stop, as the claim says.
\<close>

theorem scoped_lock_marker_left_behind:
  "saveLocation scopedRecorder = treeUri \<and> startsWith treeUri ''content://'' \<and>
   treeDocuments treeUri world0 = [] \<and>
   treeDocuments treeUri (snd startedScoped) = [lockDocument] \<and>
   isRecording (fst startedScoped) = True \<and>
   isRecording (fst stoppedScoped) = False \<and>
   lockFileName (fst stoppedScoped) = [] \<and>
   map_of (documents (snd stoppedScoped)) lockDocument = Some (treeUri, ''RECORDING_IN_PROGRESS'') \<and>
   filter isDeletion (calls (snd stoppedScoped)) = [] \<and>
   filter (\<lambda>u. endsWith u ''.lock'') (treeDocuments treeUri (snd restartedScoped))
     = [lockDocument, lockDocument2] \<and>
   map_of (files (snd startedPlain)) (docDir @ ''recording.lock'')
     = Some \<lparr>fcontent = ''RECORDING_IN_PROGRESS'', fmtime = 1700000000\<rparr> \<and>
   map_of (files (snd stoppedPlain)) (docDir @ ''recording.lock'') = None \<and>
   filter isDeletion (calls (snd stoppedPlain)) = [Delete (docDir @ ''recording.lock'') True]"
  unfolding startedScoped_eq stoppedScoped_eq startedPlain_eq stoppedPlain_eq fst_conv snd_conv
    treeDocuments_def conjunct1 [OF conjunct2 [OF restartedScoped_eq]]
  by code_simp

section \<open>Saving and listing\<close>

text \<open>
  Claim C7, evaluated where it fails. The recording of the first run is saved into the
  tree, and the list of the revision of \<open>app/(tabs)/recordings.tsx\<close> for the same tree holds
  no recording of the saved name: its one entry is named by the URI of the document, and
  the reference it carries, the tree followed by that URI, is no document at all. The
  latest revision lists the document under its own URI, and for the document directory
  both revisions list the saved name exactly once.
\<close>

theorem round_trip_scoped_listing:
  "fst (saveFile device stopDate (fst startedScoped) ''file:///cache/a.m4a''
         (logCall StopAndUnload (snd startedScoped))) = Inr artifactDocument \<and>
   listLocation device listScoped None = targetLocation device (fst startedScoped) \<and>
   map name (recordings (fst listedScoped_tabs)) = [artifactDocument] \<and>
   filter (\<lambda>r. name r = getFormattedFileName stopDate) (recordings (fst listedScoped_tabs)) = [] \<and>
   map uri (recordings (fst listedScoped_tabs)) = [treeUri @ ''/'' @ artifactDocument] \<and>
   map_of (documents (snd listedScoped_tabs)) (treeUri @ ''/'' @ artifactDocument) = None \<and>
   map uri (recordings (fst listedScoped_p002)) = [artifactDocument] \<and>
   map name (recordings (fst listedPlain_tabs)) = [getFormattedFileName stopDate] \<and>
   map name (recordings (fst listedPlain_p002)) = [getFormattedFileName stopDate]"
  unfolding listedScoped_tabs_def listedScoped_p002_def listedPlain_tabs_def listedPlain_p002_def
    startedScoped_eq stoppedScoped_eq stoppedPlain_eq fst_conv snd_conv
  by code_simp

section \<open>Two recordings stopped in one second\<close>

lemma toString_nat_hd: "toString_nat n \<noteq> [] \<and> isDigit (hd (toString_nat n))"
proof (induction n rule: toString_nat.induct)
  case (1 n)
  show ?case
  proof (cases "n < 10")
    case True
    then show ?thesis by (simp add: toString_nat_small isDigit_digitChar)
  next
    case False
    then have "toString_nat n = toString_nat (n div 10) @ [digitChar (n mod 10)]"
      by (subst toString_nat.simps) simp
    with 1 False show ?thesis by simp
  qed
qed

lemma toString_hd: "toString i \<noteq> [] \<and> hd (toString i) \<in> set ''-0123456789''"
proof (cases "i < 0")
  case True
  then show ?thesis by (simp add: toString_def)
next
  case False
  then show ?thesis
    using toString_nat_hd [of "nat i"] by (simp add: toString_def isDigit_def)
qed

lemma name_head:
  "getFormattedFileName d \<noteq> [] \<and> hd (getFormattedFileName d) \<notin> set ''content://''"
proof -
  obtain rest where r: "getFormattedFileName d = toString (getFullYear d) @ rest"
    by (simp add: getFormattedFileName_def Let_def)
  have a: "toString (getFullYear d) \<noteq> []" using toString_hd by simp
  then have h: "hd (getFormattedFileName d) = hd (toString (getFullYear d))"
    by (simp add: r)
  have "hd (toString (getFullYear d)) \<in> set ''-0123456789''" using toString_hd by simp
  then have "hd (toString (getFullYear d)) \<notin> set ''content://''" by auto
  with a h r show ?thesis by simp
qed

lemma fallback_plain:
  assumes "\<not> startsWith (targetLocation pf s) ''content://''"
  shows "\<not> startsWith (orElse (targetLocation pf s) (documentDirectoryOrEmpty pf)) ''content://''"
proof (cases "targetLocation pf s = []")
  case True
  then have "documentDirectoryOrEmpty pf = []"
    by (simp add: targetLocation_def orElse_def split: if_splits)
  with True show ?thesis by (simp add: orElse_def startsWith_def)
next
  case False
  with assms show ?thesis by (simp add: orElse_def)
qed

lemma plain_artifact_uri:
  assumes "\<not> startsWith (targetLocation pf s) ''content://''"
  shows "\<not> isContentUri (orElse (targetLocation pf s) (documentDirectoryOrEmpty pf)
           @ getFormattedFileName d)"
proof
  assume "isContentUri (orElse (targetLocation pf s) (documentDirectoryOrEmpty pf)
           @ getFormattedFileName d)"
  then have a: "startsWith (orElse (targetLocation pf s) (documentDirectoryOrEmpty pf)
           @ getFormattedFileName d) ''content://''" by (simp add: isContentUri_def)
  have b: "getFormattedFileName d \<noteq> []" using name_head by simp
  have c: "hd (getFormattedFileName d) \<notin> set ''content://''" using name_head by simp
  have "startsWith (orElse (targetLocation pf s) (documentDirectoryOrEmpty pf)) ''content://''"
    by (rule startsWith_append [OF a b c])
  with fallback_plain [OF assms] show False by simp
qed

lemma update_once:
  "distinct (map fst al) \<Longrightarrow> length (filter (\<lambda>p. fst p = k) (AList.update k v al)) = 1"
proof (induction al)
  case Nil
  then show ?case by simp
next
  case (Cons p ps)
  show ?case
  proof (cases "fst p = k")
    case True
    then have "k \<notin> fst ` set ps" using Cons.prems by auto
    then have "filter (\<lambda>p. fst p = k) ps = []" by (auto simp: filter_empty_conv)
    with True show ?thesis by (cases p) simp
  next
    case False
    with Cons show ?thesis by (cases p) simp
  qed
qed

lemma writeFile_plain:
  assumes "\<not> isContentUri dst"
  shows "writeFile dst text w =
    (if dirname dst \<in> set (dirs w)
     then (Inr (), w\<lparr>files := AList.update dst \<lparr>fcontent = text, fmtime = clock w / 1000\<rparr> (files w)\<rparr>)
     else (Inl IOError, w))"
  using assms by (simp add: writeFile_def)

lemma saveFile_plain:
  assumes "\<not> startsWith (targetLocation pf s) ''content://''"
    and "readFile u w = Inr text"
    and "fst (saveFile pf d s u w) = Inr newUri"
  shows "newUri = orElse (targetLocation pf s) (documentDirectoryOrEmpty pf) @ getFormattedFileName d \<and>
    files (snd (saveFile pf d s u w)) =
      AList.update newUri \<lparr>fcontent = text, fmtime = clock w / 1000\<rparr> (files w)"
proof -
  define dst where
    "dst = orElse (targetLocation pf s) (documentDirectoryOrEmpty pf) @ getFormattedFileName d"
  have nc: "\<not> isContentUri dst"
    unfolding dst_def by (rule plain_artifact_uri [OF assms(1)])
  have sf: "saveFile pf d s u w =
      (case FileSystem_copyAsync u dst w of
         (Inl e, w1) \<Rightarrow> (Inl e, w1)
       | (Inr x, w1) \<Rightarrow> (Inr dst, w1))"
    unfolding dst_def using assms(1) by (simp add: saveFile_def Let_def)
  have cp: "FileSystem_copyAsync u dst w = writeFile dst text (logCall (Copy u dst) w)"
    using assms(2) by (simp add: FileSystem_copyAsync_def)
  show ?thesis
  proof (cases "dirname dst \<in> set (dirs w)")
    case True
    then have "saveFile pf d s u w =
        (Inr dst, (logCall (Copy u dst) w)\<lparr>files :=
           AList.update dst \<lparr>fcontent = text, fmtime = clock w / 1000\<rparr> (files w)\<rparr>)"
      by (simp add: sf cp writeFile_plain [OF nc] logCall_def)
    with assms(3) show ?thesis by (simp add: dst_def)
  next
    case False
    then have "saveFile pf d s u w = (Inl IOError, logCall (Copy u dst) w)"
      by (simp add: sf cp writeFile_plain [OF nc] logCall_def)
    with assms(3) show ?thesis by simp
  qed
qed

lemma startsWith_nonempty: "startsWith t ''content://'' \<Longrightarrow> t \<noteq> []"
  by (auto simp: startsWith_def)

lemma readFile_other_document:
  assumes "u \<noteq> k"
  shows "readFile u (w\<lparr>documents := AList.update k v (documents w), calls := c\<rparr>) = readFile u w"
  using assms by (simp add: readFile_def update_conv' split: option.splits)

lemma saveFile_scoped:
  assumes t: "startsWith (targetLocation pf s) ''content://''"
    and c: "isContentUri newUri"
    and n: "u \<noteq> newUri"
    and r: "readFile u w = Inr text"
    and f: "fst (saveFile pf d s u w) = Inr newUri"
  shows "newUri = mintUri pf (targetLocation pf s) (getFormattedFileName d)
           (treeDocuments (targetLocation pf s) w) \<and>
    documents (snd (saveFile pf d s u w)) =
      AList.update newUri (targetLocation pf s, text)
        (AList.update newUri (targetLocation pf s, []) (documents w)) \<and>
    files (snd (saveFile pf d s u w)) = files w"
proof -
  define T where "T = targetLocation pf s"
  define u0 where "u0 = mintUri pf T (getFormattedFileName d) (treeDocuments T w)"
  define w1 where "w1 = logCall (SafCreateFile T (getFormattedFileName d) ''audio/m4a'')
      (w\<lparr>documents := AList.update u0 (T, []) (documents w)\<rparr>)"
  have ne: "T \<noteq> []" unfolding T_def by (rule startsWith_nonempty [OF t])
  have sf: "saveFile pf d s u w =
      (case SAF_createFileAsync pf T (getFormattedFileName d) ''audio/m4a'' w of
         (Inl e, w1) \<Rightarrow> (Inl e, w1)
       | (Inr newUri, w1) \<Rightarrow>
           (case FileSystem_readAsStringAsync u w1 of
              (Inl e, w2) \<Rightarrow> (Inl e, w2)
            | (Inr originalFile, w2) \<Rightarrow>
                (case FileSystem_writeAsStringAsync newUri originalFile w2 of
                   (Inl e, w3) \<Rightarrow> (Inl e, w3)
                 | (Inr x, w3) \<Rightarrow> (Inr newUri, w3))))"
    using t ne unfolding T_def by (simp add: saveFile_def Let_def)
  have g: "T \<in> set (grants w)"
  proof (rule ccontr)
    assume "T \<notin> set (grants w)"
    then have "fst (saveFile pf d s u w) = Inl PermissionError"
      by (simp add: sf SAF_createFileAsync_def)
    with f show False by simp
  qed
  have cr: "SAF_createFileAsync pf T (getFormattedFileName d) ''audio/m4a'' w = (Inr u0, w1)"
    using g by (simp add: SAF_createFileAsync_def u0_def w1_def Let_def)
  have sf2: "saveFile pf d s u w =
      (case FileSystem_readAsStringAsync u w1 of
         (Inl e, w2) \<Rightarrow> (Inl e, w2)
       | (Inr originalFile, w2) \<Rightarrow>
           (case FileSystem_writeAsStringAsync u0 originalFile w2 of
              (Inl e, w3) \<Rightarrow> (Inl e, w3)
            | (Inr x, w3) \<Rightarrow> (Inr u0, w3)))"
    by (simp add: sf cr)
  have eq: "newUri = u0"
    using f unfolding sf2 by (auto split: prod.splits sum.splits)
  have rd: "readFile u w1 = Inr text"
    using n r unfolding w1_def logCall_def eq by (simp add: readFile_other_document)
  have c0: "isContentUri u0" using c eq by simp
  define w2 where "w2 = logCall (ReadAsString u) w1"
  have rs: "FileSystem_readAsStringAsync u w1 = (Inr text, w2)"
    by (simp add: FileSystem_readAsStringAsync_def rd w2_def)
  have d2: "documents (logCall (WriteAsString u0 text) w2) = AList.update u0 (T, []) (documents w)"
    and g2: "grants (logCall (WriteAsString u0 text) w2) = grants w"
    and f2: "files (logCall (WriteAsString u0 text) w2) = files w"
    by (simp_all add: w2_def w1_def logCall_def)
  have wr: "FileSystem_writeAsStringAsync u0 text w2 =
      (Inr (), (logCall (WriteAsString u0 text) w2)
         \<lparr>documents := AList.update u0 (T, text) (AList.update u0 (T, []) (documents w))\<rparr>)"
    using g c0 by (simp add: FileSystem_writeAsStringAsync_def writeFile_def d2 g2 update_conv')
  have sf3: "saveFile pf d s u w =
      (Inr u0, (logCall (WriteAsString u0 text) w2)
         \<lparr>documents := AList.update u0 (T, text) (AList.update u0 (T, []) (documents w))\<rparr>)"
    by (simp add: sf2 rs wr)
  have "documents (snd (saveFile pf d s u w)) =
      AList.update u0 (T, text) (AList.update u0 (T, []) (documents w))"
    and "files (snd (saveFile pf d s u w)) = files w"
    unfolding sf3 by (simp_all add: f2)
  then show ?thesis
    unfolding eq T_def [symmetric] by (simp add: u0_def)
qed

text \<open>
  Claim C3, as amended. Two moments of one wall-clock second give the same artifact
  name. In a plain location a save that succeeds writes the capture to the location
  followed by that name: where the artifact of the first recording lay, the file now
  holds the bytes of the second capture, and there is one file of that name. In a scoped
  directory a save that succeeds creates a document through the provider and writes the
  capture to the URI the provider returns (a \<open>content://\<close> URI other than the capture
  file); every other document is as it was. So the document of the first recording holds
  the second capture exactly when the provider returns its URI again, and is untouched
  otherwise.
\<close>

theorem same_second_overwrites:
  assumes "sameSecond d1 d2"
    and "readFile u w = Inr text"
    and "fst (saveFile pf d2 s u w) = Inr newUri"
  shows "getFormattedFileName d2 = getFormattedFileName d1 \<and>
    (\<not> startsWith (targetLocation pf s) ''content://'' \<longrightarrow>
       newUri = orElse (targetLocation pf s) (documentDirectoryOrEmpty pf) @ getFormattedFileName d1 \<and>
       map_of (files (snd (saveFile pf d2 s u w))) newUri
         = Some \<lparr>fcontent = text, fmtime = clock w / 1000\<rparr> \<and>
       (distinct (map fst (files w)) \<longrightarrow>
          length (filter (\<lambda>p. fst p = newUri) (files (snd (saveFile pf d2 s u w)))) = 1)) \<and>
    (startsWith (targetLocation pf s) ''content://'' \<and> isContentUri newUri \<and> u \<noteq> newUri \<longrightarrow>
       newUri = mintUri pf (targetLocation pf s) (getFormattedFileName d1)
                  (treeDocuments (targetLocation pf s) w) \<and>
       (\<forall>x. map_of (documents (snd (saveFile pf d2 s u w))) x =
              (if x = newUri then Some (targetLocation pf s, text) else map_of (documents w) x)) \<and>
       files (snd (saveFile pf d2 s u w)) = files w)"
proof (intro conjI impI)
  show n: "getFormattedFileName d2 = getFormattedFileName d1"
    using assms(1) by (simp add: getFormattedFileName_sameSecond)
  {
    assume p: "\<not> startsWith (targetLocation pf s) ''content://''"
    from saveFile_plain [OF p assms(2,3)] have
      u: "newUri = orElse (targetLocation pf s) (documentDirectoryOrEmpty pf) @ getFormattedFileName d2"
      and f: "files (snd (saveFile pf d2 s u w)) =
        AList.update newUri \<lparr>fcontent = text, fmtime = clock w / 1000\<rparr> (files w)"
      by simp_all
    show "newUri = orElse (targetLocation pf s) (documentDirectoryOrEmpty pf) @ getFormattedFileName d1"
      using u n by simp
    show "map_of (files (snd (saveFile pf d2 s u w))) newUri
        = Some \<lparr>fcontent = text, fmtime = clock w / 1000\<rparr>"
      by (simp add: f update_conv')
    show "length (filter (\<lambda>p. fst p = newUri) (files (snd (saveFile pf d2 s u w)))) = 1"
      if "distinct (map fst (files w))"
      unfolding f by (rule update_once [OF that])
  }
  {
    assume q: "startsWith (targetLocation pf s) ''content://'' \<and> isContentUri newUri \<and> u \<noteq> newUri"
    then have q1: "startsWith (targetLocation pf s) ''content://''" and q2: "isContentUri newUri"
      and q3: "u \<noteq> newUri" by simp_all
    note sc = saveFile_scoped [OF q1 q2 q3 assms(2,3)]
    show "newUri = mintUri pf (targetLocation pf s) (getFormattedFileName d1)
                  (treeDocuments (targetLocation pf s) w)"
      using sc n by simp
    show "\<forall>x. map_of (documents (snd (saveFile pf d2 s u w))) x =
              (if x = newUri then Some (targetLocation pf s, text) else map_of (documents w) x)"
      using sc by (simp add: update_conv')
    show "files (snd (saveFile pf d2 s u w)) = files w"
      using sc by simp
  }
qed

text \<open>
  The claim as stated fails in a scoped directory. The names of the two recordings are
  the same, but each save asks the provider for a new document: after the second stop
  the document of the first recording still holds the first capture, and the second
  capture lies in a document of its own.
\<close>

theorem same_second_overwrites_counterexample:
  "sameSecond stopDate stopDate2 \<and>
   getFormattedFileName stopDate2 = getFormattedFileName stopDate \<and>
   targetLocation device (fst restartedScoped) = treeUri \<and>
   map_of (documents (snd restartedScoped)) artifactDocument = Some (treeUri, ''first'') \<and>
   map_of (documents (snd restoppedScoped)) artifactDocument = Some (treeUri, ''first'') \<and>
   map_of (documents (snd restoppedScoped)) artifactDocument2 = Some (treeUri, ''second'') \<and>
   artifactDocument2 \<noteq> artifactDocument"
  unfolding restoppedScoped_eq conjunct1 [OF restartedScoped_eq]
    conjunct1 [OF conjunct2 [OF restartedScoped_eq]]
  by code_simp

lemma restartedPlain_world:
  "restartedPlain =
    (plainRecorder\<lparr>lockFileName := ''recording.lock'',
       recording := Some (AudioRecording (Some ''file:///cache/b.m4a'')), isRecording := True\<rparr>,
     world0\<lparr>files := files world0 @
         [(artifactFile, \<lparr>fcontent = ''first'', fmtime = 1700000000\<rparr>),
          (docDir @ ''recording.lock'', \<lparr>fcontent = ''RECORDING_IN_PROGRESS'', fmtime = 1700000000\<rparr>)],
       captureUri := Some ''file:///cache/b.m4a'',
       calls := [RequestPermissions, SetAudioMode,
         WriteAsString (docDir @ ''recording.lock'') ''RECORDING_IN_PROGRESS'', RecordingCreate,
         StopAndUnload, Copy ''file:///cache/a.m4a'' artifactFile,
         Alert ''Recording Saved'' ''Recording saved as: 2024-01-05 09-03-07 0.m4a'',
         Delete (docDir @ ''recording.lock'') True, RequestPermissions, SetAudioMode,
         WriteAsString (docDir @ ''recording.lock'') ''RECORDING_IN_PROGRESS'', RecordingCreate]\<rparr>)"
  unfolding restartedPlain_def stoppedPlain_eq fst_conv snd_conv by code_simp

lemma savedNumbering_eq:
  "savedNumbering =
     world0\<lparr>documents := [(artifactDocument, treeUri, ''first'')],
       calls := [SafCreateFile treeUri ''2024-01-05 09-03-07 0.m4a'' ''audio/m4a'',
         ReadAsString ''file:///cache/a.m4a'', WriteAsString artifactDocument ''first'']\<rparr>"
  unfolding savedNumbering_def by code_simp

lemma savedReusing_eq:
  "savedReusing =
     world0\<lparr>documents := [(artifactDocument, treeUri, ''first'')],
       calls := [SafCreateFile treeUri ''2024-01-05 09-03-07 0.m4a'' ''audio/m4a'',
         ReadAsString ''file:///cache/a.m4a'', WriteAsString artifactDocument ''first'']\<rparr>"
  unfolding savedReusing_def by code_simp

text \<open>
  The two recordings in the document directory: the second save succeeds and replaces
  the bytes of the first. The two recordings in the tree: with the provider that numbers
  the names the first document keeps the first capture, with the provider that returns
  the same URI it holds the second.
\<close>

theorem same_second_overwrites_witness:
  "sameSecond stopDate stopDate2 \<and>
   \<not> startsWith (targetLocation device (fst restartedPlain)) ''content://'' \<and>
   map_of (files (logCall StopAndUnload (snd restartedPlain))) artifactFile
     = Some \<lparr>fcontent = ''first'', fmtime = 1700000000\<rparr> \<and>
   readFile ''file:///cache/b.m4a'' (logCall StopAndUnload (snd restartedPlain)) = Inr ''second'' \<and>
   fst (saveFile device stopDate2 (fst restartedPlain) ''file:///cache/b.m4a''
     (logCall StopAndUnload (snd restartedPlain))) = Inr artifactFile \<and>
   map_of (files (snd (saveFile device stopDate2 (fst restartedPlain) ''file:///cache/b.m4a''
     (logCall StopAndUnload (snd restartedPlain))))) artifactFile
     = Some \<lparr>fcontent = ''second'', fmtime = 1700000000\<rparr> \<and>
   length (filter (\<lambda>p. fst p = artifactFile)
     (files (snd (saveFile device stopDate2 (fst restartedPlain) ''file:///cache/b.m4a''
       (logCall StopAndUnload (snd restartedPlain)))))) = 1 \<and>
   map_of (files (snd restoppedPlain)) artifactFile
     = Some \<lparr>fcontent = ''second'', fmtime = 1700000000\<rparr> \<and>
   startsWith (targetLocation device scopedRecorder) ''content://'' \<and>
   targetLocation deviceReusing scopedRecorder = targetLocation device scopedRecorder \<and>
   readFile ''file:///cache/b.m4a'' savedNumbering = Inr ''second'' \<and>
   map_of (documents savedNumbering) artifactDocument = Some (treeUri, ''first'') \<and>
   fst (saveFile device stopDate2 scopedRecorder ''file:///cache/b.m4a'' savedNumbering)
     = Inr artifactDocument2 \<and>
   isContentUri artifactDocument2 \<and> ''file:///cache/b.m4a'' \<noteq> artifactDocument2 \<and>
   map_of (documents (snd (saveFile device stopDate2 scopedRecorder ''file:///cache/b.m4a''
     savedNumbering))) artifactDocument = Some (treeUri, ''first'') \<and>
   map_of (documents (snd (saveFile device stopDate2 scopedRecorder ''file:///cache/b.m4a''
     savedNumbering))) artifactDocument2 = Some (treeUri, ''second'') \<and>
   readFile ''file:///cache/b.m4a'' savedReusing = Inr ''second'' \<and>
   map_of (documents savedReusing) artifactDocument = Some (treeUri, ''first'') \<and>
   fst (saveFile deviceReusing stopDate2 scopedRecorder ''file:///cache/b.m4a'' savedReusing)
     = Inr artifactDocument \<and>
   isContentUri artifactDocument \<and> ''file:///cache/b.m4a'' \<noteq> artifactDocument \<and>
   map_of (documents (snd (saveFile deviceReusing stopDate2 scopedRecorder ''file:///cache/b.m4a''
     savedReusing))) artifactDocument = Some (treeUri, ''second'')"
proof -
  have h1: "sameSecond stopDate stopDate2" by code_simp
  have h2: "\<not> startsWith (targetLocation device (fst restartedPlain)) ''content://''"
    unfolding restartedPlain_world fst_conv by code_simp
  have t: "orElse (targetLocation device (fst restartedPlain)) (documentDirectoryOrEmpty device)
      @ getFormattedFileName stopDate = artifactFile"
    unfolding restartedPlain_world fst_conv by code_simp
  have h3: "map_of (files (logCall StopAndUnload (snd restartedPlain))) artifactFile
     = Some \<lparr>fcontent = ''first'', fmtime = 1700000000\<rparr>"
    unfolding restartedPlain_world snd_conv by code_simp
  have h4: "readFile ''file:///cache/b.m4a'' (logCall StopAndUnload (snd restartedPlain)) = Inr ''second''"
    unfolding restartedPlain_world snd_conv by code_simp
  have h5: "fst (saveFile device stopDate2 (fst restartedPlain) ''file:///cache/b.m4a''
     (logCall StopAndUnload (snd restartedPlain))) = Inr artifactFile"
    unfolding restartedPlain_world fst_conv snd_conv by code_simp
  have d: "distinct (map fst (files (logCall StopAndUnload (snd restartedPlain))))"
    unfolding restartedPlain_world snd_conv by code_simp
  have c: "clock (logCall StopAndUnload (snd restartedPlain)) / 1000 = 1700000000"
    unfolding restartedPlain_world snd_conv by (simp add: logCall_def world0_def)
  have r: "map_of (files (snd restoppedPlain)) artifactFile
     = Some \<lparr>fcontent = ''second'', fmtime = 1700000000\<rparr>"
    unfolding restoppedPlain_eq by code_simp
  from same_second_overwrites [OF h1 h4 h5] h2 d c
  have plain: "map_of (files (snd (saveFile device stopDate2 (fst restartedPlain) ''file:///cache/b.m4a''
       (logCall StopAndUnload (snd restartedPlain))))) artifactFile
       = Some \<lparr>fcontent = ''second'', fmtime = 1700000000\<rparr> \<and>
     length (filter (\<lambda>p. fst p = artifactFile)
       (files (snd (saveFile device stopDate2 (fst restartedPlain) ''file:///cache/b.m4a''
         (logCall StopAndUnload (snd restartedPlain)))))) = 1"
    by simp
  have s1: "startsWith (targetLocation device scopedRecorder) ''content://''" by code_simp
  have s2: "targetLocation deviceReusing scopedRecorder = targetLocation device scopedRecorder"
    by code_simp
  have tl: "targetLocation device scopedRecorder = treeUri" by code_simp
  have n1: "readFile ''file:///cache/b.m4a'' savedNumbering = Inr ''second''"
    unfolding savedNumbering_eq by code_simp
  have n2: "map_of (documents savedNumbering) artifactDocument = Some (treeUri, ''first'')"
    unfolding savedNumbering_eq by simp
  have n3: "fst (saveFile device stopDate2 scopedRecorder ''file:///cache/b.m4a'' savedNumbering)
     = Inr artifactDocument2"
    unfolding savedNumbering_eq by code_simp
  have n4: "isContentUri artifactDocument2" by code_simp
  have n5: "''file:///cache/b.m4a'' \<noteq> artifactDocument2" by code_simp
  have n6: "artifactDocument \<noteq> artifactDocument2" by code_simp
  from same_second_overwrites [OF h1 n1 n3] s1 n4 n5
  have na: "\<forall>x. map_of (documents (snd (saveFile device stopDate2 scopedRecorder
        ''file:///cache/b.m4a'' savedNumbering))) x =
      (if x = artifactDocument2 then Some (targetLocation device scopedRecorder, ''second'')
       else map_of (documents savedNumbering) x)"
    by blast
  have numbering: "map_of (documents (snd (saveFile device stopDate2 scopedRecorder
        ''file:///cache/b.m4a'' savedNumbering))) artifactDocument = Some (treeUri, ''first'') \<and>
     map_of (documents (snd (saveFile device stopDate2 scopedRecorder
        ''file:///cache/b.m4a'' savedNumbering))) artifactDocument2 = Some (treeUri, ''second'')"
    using n6 by (simp add: na n2 tl)
  have r1: "readFile ''file:///cache/b.m4a'' savedReusing = Inr ''second''"
    unfolding savedReusing_eq by code_simp
  have r2: "map_of (documents savedReusing) artifactDocument = Some (treeUri, ''first'')"
    unfolding savedReusing_eq by simp
  have r3: "fst (saveFile deviceReusing stopDate2 scopedRecorder ''file:///cache/b.m4a'' savedReusing)
     = Inr artifactDocument"
    unfolding savedReusing_eq by code_simp
  have r4: "isContentUri artifactDocument" by code_simp
  have r5: "''file:///cache/b.m4a'' \<noteq> artifactDocument" by code_simp
  from same_second_overwrites [OF h1 r1 r3] s1 s2 r4 r5
  have ra: "\<forall>x. map_of (documents (snd (saveFile deviceReusing stopDate2 scopedRecorder
        ''file:///cache/b.m4a'' savedReusing))) x =
      (if x = artifactDocument then Some (targetLocation deviceReusing scopedRecorder, ''second'')
       else map_of (documents savedReusing) x)"
    by simp
  have reusing: "map_of (documents (snd (saveFile deviceReusing stopDate2 scopedRecorder
        ''file:///cache/b.m4a'' savedReusing))) artifactDocument = Some (treeUri, ''second'')"
    by (simp add: ra s2 tl)
  show ?thesis
    using h1 h2 h3 h4 h5 plain r s1 s2 n1 n2 n3 n4 n5 numbering r1 r2 r3 r4 r5 reusing
    by simp
qed

section \<open>Playback\<close>

text \<open>
  Claim C4, as amended. When a sound is loaded and the marker names \<open>x\<close> (the state a
  first \<open>play(x)\<close> leaves), \<open>playRecording x\<close> first unloads the sound. When the
  unloading succeeds it clears both the sound and the marker and returns: the only call it
  makes is the unloading, nothing is loaded or played again, and the sound is no longer
  among the loaded ones. When the unloading is rejected, the two assignments after the
  \<open>await\<close> are skipped: the handler raises the alert \<open>Failed to play recording\<close> and the
  loaded sound and the marker stay as they were.
\<close>

theorem playback_toggle:
  assumes "playingSound s = Some sound" and "playingUri s = Some x"
  shows "(unloadOk w \<longrightarrow>
      playRecording s x w =
        (s\<lparr>playingSound := None, playingUri := None\<rparr>,
         w\<lparr>sounds := removeAll sound (sounds w), calls := calls w @ [SoundUnload sound]\<rparr>) \<and>
      playingSound (fst (playRecording s x w)) = None \<and>
      playingUri (fst (playRecording s x w)) = None \<and>
      sound \<notin> set (sounds (snd (playRecording s x w))) \<and>
      newCalls w (snd (playRecording s x w)) = [SoundUnload sound]) \<and>
    (\<not> unloadOk w \<longrightarrow>
      playRecording s x w =
        (s, w\<lparr>calls := calls w @ [SoundUnload sound, Alert ''Error'' ''Failed to play recording'']\<rparr>) \<and>
      playingSound (fst (playRecording s x w)) = Some sound \<and>
      playingUri (fst (playRecording s x w)) = Some x \<and>
      sounds (snd (playRecording s x w)) = sounds w)"
  using assms
  by (simp add: playRecording_def unloadAsync_def alert_def logCall_def newCalls_def)

text \<open>
  The claim as it was written fails where the unloading is rejected: the screen plays
  \<open>a.m4a\<close> with sound 0, and after \<open>play\<close> of the same recording sound 0 is still loaded
  and the marker still names \<open>a.m4a\<close>.
\<close>

theorem playback_toggle_counterexample:
  "playingSound playingA = Some 0 \<and> playingUri playingA = Some ''file:///cache/a.m4a'' \<and>
   sounds worldNoUnload = [0] \<and>
   playingSound (fst (playRecording playingA ''file:///cache/a.m4a'' worldNoUnload)) = Some 0 \<and>
   playingUri (fst (playRecording playingA ''file:///cache/a.m4a'' worldNoUnload))
     = Some ''file:///cache/a.m4a'' \<and>
   sounds (snd (playRecording playingA ''file:///cache/a.m4a'' worldNoUnload)) = [0] \<and>
   newCalls worldNoUnload (snd (playRecording playingA ''file:///cache/a.m4a'' worldNoUnload))
     = [SoundUnload 0, Alert ''Error'' ''Failed to play recording'']"
  by code_simp

text \<open>
  A first \<open>play\<close> on the idle screen loads sound 0 and sets the marker; the second
  \<open>play\<close> of the same recording leaves nothing loaded.
\<close>

theorem playback_toggle_witness:
  "unloadOk world0 \<and>
   playingSound (fst (playRecording idleList ''file:///cache/a.m4a'' world0)) = Some 0 \<and>
   playingUri (fst (playRecording idleList ''file:///cache/a.m4a'' world0))
     = Some ''file:///cache/a.m4a'' \<and>
   sounds (snd (playRecording idleList ''file:///cache/a.m4a'' world0)) = [0] \<and>
   playingSound (fst (playRecording (fst (playRecording idleList ''file:///cache/a.m4a'' world0))
     ''file:///cache/a.m4a'' (snd (playRecording idleList ''file:///cache/a.m4a'' world0)))) = None \<and>
   playingUri (fst (playRecording (fst (playRecording idleList ''file:///cache/a.m4a'' world0))
     ''file:///cache/a.m4a'' (snd (playRecording idleList ''file:///cache/a.m4a'' world0)))) = None \<and>
   sounds (snd (playRecording (fst (playRecording idleList ''file:///cache/a.m4a'' world0))
     ''file:///cache/a.m4a'' (snd (playRecording idleList ''file:///cache/a.m4a'' world0)))) = []"
proof -
  have first: "playRecording idleList ''file:///cache/a.m4a'' world0 =
      (idleList\<lparr>playingSound := Some 0, playingUri := Some ''file:///cache/a.m4a''\<rparr>,
       logCall (SoundCreate ''file:///cache/a.m4a'') (world0\<lparr>sounds := [0], nextSound := 1\<rparr>))"
    by (simp add: playRecording_def idleList_def world0_def Sound_createAsync_def readFile_def
        isContentUri_def startsWith_def logCall_def)
  have a: "playingSound (fst (playRecording idleList ''file:///cache/a.m4a'' world0)) = Some 0"
    and b: "playingUri (fst (playRecording idleList ''file:///cache/a.m4a'' world0))
      = Some ''file:///cache/a.m4a''"
    and c: "sounds (snd (playRecording idleList ''file:///cache/a.m4a'' world0)) = [0]"
    and d: "unloadOk (snd (playRecording idleList ''file:///cache/a.m4a'' world0))"
    by (simp_all add: first logCall_def) (simp add: world0_def)
  have e: "unloadOk world0" by (simp add: world0_def)
  from playback_toggle [OF a b, of "snd (playRecording idleList ''file:///cache/a.m4a'' world0)"] d
  have f: "playRecording (fst (playRecording idleList ''file:///cache/a.m4a'' world0))
      ''file:///cache/a.m4a'' (snd (playRecording idleList ''file:///cache/a.m4a'' world0)) =
      (fst (playRecording idleList ''file:///cache/a.m4a'' world0)\<lparr>playingSound := None, playingUri := None\<rparr>,
       snd (playRecording idleList ''file:///cache/a.m4a'' world0)
         \<lparr>sounds := removeAll 0 (sounds (snd (playRecording idleList ''file:///cache/a.m4a'' world0))),
          calls := calls (snd (playRecording idleList ''file:///cache/a.m4a'' world0)) @ [SoundUnload 0]\<rparr>)"
    by blast
  show ?thesis using a b c e by (simp add: f)
qed

section \<open>The order of a listing\<close>

















section \<open>What a stop leaves behind\<close>















section \<open>The location after a reset\<close>

text \<open>
  The calls the recorder and the list make with a plain location, and what the three
  resolvers make of a key that is present.
\<close>

lemma createLockFile_plain_calls:
  assumes "\<not> startsWith (targetLocation pf s) ''content://''"
  shows "newCalls w (snd (snd (createLockFile pf s st w)))
    = [WriteAsString (targetLocation pf s @ ''recording.lock'') ''RECORDING_IN_PROGRESS'']"
  using assms
    FileSystem_writeAsStringAsync_calls [of "targetLocation pf s @ ''recording.lock''"
      "''RECORDING_IN_PROGRESS''" w]
  by (auto simp: createLockFile_def Let_def newCalls_def split: prod.splits sum.splits)

lemma saveRecording_plain_calls:
  assumes "\<not> startsWith (targetLocation pf s) ''content://''"
  shows "newCalls w (saveRecording pf now s u w) =
    [Copy u (orElse (targetLocation pf s) (documentDirectoryOrEmpty pf) @ getFormattedFileName now),
     case fst (saveFile pf now s u w) of
       Inl e \<Rightarrow> Alert ''Save Error'' ''Failed to save recording. Check console for details.''
     | Inr x \<Rightarrow> Alert ''Recording Saved'' (''Recording saved as: '' @ getFormattedFileName now)]"
proof -
  have "calls (snd (saveFile pf now s u w)) = calls w @
      [Copy u (orElse (targetLocation pf s) (documentDirectoryOrEmpty pf) @ getFormattedFileName now)]"
    using assms
      FileSystem_copyAsync_calls [of u
        "orElse (targetLocation pf s) (documentDirectoryOrEmpty pf) @ getFormattedFileName now" w]
    by (auto simp: saveFile_def Let_def split: prod.splits sum.splits)
  then show ?thesis by (simp add: saveRecording_calls newCalls_def)
qed

lemma removeLockFile_plain_calls:
  assumes "\<not> startsWith (targetLocation pf s) ''content://''"
  shows "newCalls w (snd (removeLockFile pf s st w)) =
    (if lockFileName s = [] then []
     else [Delete (targetLocation pf s @ lockFileName s) True])"
  using assms FileSystem_deleteAsync_calls [of "targetLocation pf s @ lockFileName s" True w]
  by (auto simp: removeLockFile_def Let_def newCalls_def split: prod.splits sum.splits)

lemma loadRecordings_plain_calls:
  assumes "\<not> startsWith (listLocation pf s loc) ''content://''"
  shows "newCalls w (snd (loadRecordings_p002 pf s st loc w)) =
    ReadDirectory (listLocation pf s loc) #
      (case fst (FileSystem_readDirectoryAsync (listLocation pf s loc) w) of
         Inl e \<Rightarrow> [Alert ''Error'' ''Failed to load recordings'']
       | Inr fs \<Rightarrow> [])"
  using assms
  by (simp add: loadRecordings_p002_def Let_def FileSystem_readDirectoryAsync_def alert_def
      logCall_def newCalls_def)

lemma resolvers_read_key:
  assumes "storageOk w" and "map_of (storage w) ''saveLocation'' = Some v" and "v \<noteq> []"
  shows "loadSaveLocation pf ist w = (ist\<lparr>saveLocation := v\<rparr>, logCall (GetItem ''saveLocation'') w) \<and>
    loadSettings pf sst w =
      (sst\<lparr>saveLocation_s := v, isLoading := False\<rparr>, logCall (GetItem ''saveLocation'') w) \<and>
    loadSaveLocationAndRecordings pf rs w =
      loadRecordings_p002 pf rs (rs\<lparr>saveLocation_r := v\<rparr>) (Some v)
        (logCall (GetItem ''saveLocation'') w)"
  using assms
  by (simp add: loadSaveLocation_def loadSettings_def loadSaveLocationAndRecordings_def
      AsyncStorage_getItem_def orElseOpt_def orElse_def)

lemma loadRecordings_p002_plain_location:
  assumes "\<not> startsWith (listLocation pf s loc) ''content://''"
  shows "saveLocation_r (fst (loadRecordings_p002 pf s st loc w)) = saveLocation_r st \<and>
    loading (fst (loadRecordings_p002 pf s st loc w)) = False"
  using assms
  by (simp add: loadRecordings_p002_def Let_def split: prod.splits sum.splits)

text \<open>
  Claim C10. Where the document directory is a \<open>file://\<close> URI and the key-value store
  takes the write, \<open>resetToDefault\<close> leaves the \<open>saveLocation\<close> key present and equal to
  the document directory. That value does not start with \<open>content://\<close>. The recorder,
  the settings screen and the recordings screen each read the key and take the value
  stored under it, whatever it is; here they resolve it to the document directory, which
  is the state they resolve an absent key to, and the recordings screen goes on to read
  that directory. With the resolved location the lock file is written by
  \<open>writeAsStringAsync\<close> and removed by \<open>deleteAsync\<close> at the document directory followed
  by its name, the capture is saved by \<open>copyAsync\<close> to the document directory followed by
  the artifact name, and the directory is listed by \<open>readDirectoryAsync\<close>: these are the
  only calls besides the alerts, and none is a call of the storage access framework.
\<close>

theorem reset_to_default:
  assumes "storageOk w" and "documentDirectory pf = Some d" and "startsWith d ''file://''"
  shows "map_of (storage (snd (resetToDefault pf st w))) ''saveLocation'' = Some d \<and>
    saveLocation_s (fst (resetToDefault pf st w)) = d \<and>
    \<not> startsWith d ''content://'' \<and>
    saveLocation (fst (loadSaveLocation pf ist (snd (resetToDefault pf st w)))) = d \<and>
    fst (loadSaveLocation pf ist (snd (resetToDefault pf st w)))
      = fst (loadSaveLocation pf ist (keyAbsent (snd (resetToDefault pf st w)))) \<and>
    fst (loadSettings pf sst (snd (resetToDefault pf st w)))
      = fst (loadSettings pf sst (keyAbsent (snd (resetToDefault pf st w)))) \<and>
    fst (loadSaveLocationAndRecordings pf rs (snd (resetToDefault pf st w)))
      = fst (loadSaveLocationAndRecordings pf rs (keyAbsent (snd (resetToDefault pf st w)))) \<and>
    noSafCalls (newCalls w2 (snd (snd (createLockFile pf
      (fst (loadSaveLocation pf ist (snd (resetToDefault pf st w)))) ist2 w2)))) \<and>
    noSafCalls (newCalls w2 (saveRecording pf now
      (fst (loadSaveLocation pf ist (snd (resetToDefault pf st w)))) u w2)) \<and>
    noSafCalls (newCalls w2 (snd (removeLockFile pf
      (fst (loadSaveLocation pf ist (snd (resetToDefault pf st w)))) ist2 w2))) \<and>
    noSafCalls (newCalls w2 (snd (loadRecordings_p002 pf rs rst (Some d) w2))) \<and>
    fst (loadSaveLocation pf ist (snd (resetToDefault pf st w))) = ist\<lparr>saveLocation := d\<rparr> \<and>
    fst (loadSettings pf sst (snd (resetToDefault pf st w)))
      = sst\<lparr>saveLocation_s := d, isLoading := False\<rparr> \<and>
    loadSaveLocationAndRecordings pf rs (snd (resetToDefault pf st w)) =
      loadRecordings_p002 pf rs (rs\<lparr>saveLocation_r := d\<rparr>) (Some d)
        (logCall (GetItem ''saveLocation'') (snd (resetToDefault pf st w))) \<and>
    saveLocation_r (fst (loadSaveLocationAndRecordings pf rs (snd (resetToDefault pf st w)))) = d \<and>
    take 2 (newCalls (snd (resetToDefault pf st w))
        (snd (loadSaveLocationAndRecordings pf rs (snd (resetToDefault pf st w)))))
      = [GetItem ''saveLocation'', ReadDirectory d] \<and>
    (\<forall>v w'. storageOk w' \<and> map_of (storage w') ''saveLocation'' = Some v \<and> v \<noteq> [] \<longrightarrow>
       saveLocation (fst (loadSaveLocation pf ist w')) = v \<and>
       saveLocation_s (fst (loadSettings pf sst w')) = v \<and>
       loadSaveLocationAndRecordings pf rs w' =
         loadRecordings_p002 pf rs (rs\<lparr>saveLocation_r := v\<rparr>) (Some v)
           (logCall (GetItem ''saveLocation'') w')) \<and>
    newCalls w2 (snd (snd (createLockFile pf
        (fst (loadSaveLocation pf ist (snd (resetToDefault pf st w)))) ist2 w2)))
      = [WriteAsString (d @ ''recording.lock'') ''RECORDING_IN_PROGRESS''] \<and>
    newCalls w2 (saveRecording pf now
        (fst (loadSaveLocation pf ist (snd (resetToDefault pf st w)))) u w2)
      = [Copy u (d @ getFormattedFileName now),
         case fst (saveFile pf now (fst (loadSaveLocation pf ist (snd (resetToDefault pf st w))))
                u w2) of
           Inl e \<Rightarrow> Alert ''Save Error'' ''Failed to save recording. Check console for details.''
         | Inr x \<Rightarrow> Alert ''Recording Saved'' (''Recording saved as: '' @ getFormattedFileName now)] \<and>
    newCalls w2 (snd (removeLockFile pf
        (fst (loadSaveLocation pf ist (snd (resetToDefault pf st w)))) ist2 w2))
      = (if lockFileName ist = [] then [] else [Delete (d @ lockFileName ist) True]) \<and>
    newCalls w2 (snd (loadRecordings_p002 pf rs rst (Some d) w2))
      = ReadDirectory d #
          (case fst (FileSystem_readDirectoryAsync d w2) of
             Inl e \<Rightarrow> [Alert ''Error'' ''Failed to load recordings'']
           | Inr fs \<Rightarrow> [])"
proof -
  note nc = file_not_content [OF assms(3)]
  note old = reset_resolves_as_absent [OF assms, of st ist sst rs w2 ist2 now u rst]
  let ?w1 = "snd (resetToDefault pf st w)"
  have r: "resetToDefault pf st w =
    (st\<lparr>saveLocation_s := d\<rparr>,
     w\<lparr>storage := AList.update ''saveLocation'' d (storage w),
       calls := calls w @ [SetItem ''saveLocation'' d, Alert ''Success'' ''Reset to default location!'']\<rparr>)"
    by (rule resetToDefault_eq [OF assms(1,2)])
  have k: "map_of (storage ?w1) ''saveLocation'' = Some d"
    by (simp add: r update_conv')
  have ok: "storageOk ?w1" using assms(1) by (simp add: r)
  note rk = resolvers_read_key [OF ok k nc(2), of pf]
  have f: "fst (loadSaveLocation pf ist ?w1) = ist\<lparr>saveLocation := d\<rparr>"
    using rk [of ist] by simp
  have n1: "fst (loadSettings pf sst ?w1) = sst\<lparr>saveLocation_s := d, isLoading := False\<rparr>"
    using rk [of _ sst] by simp
  have n2: "loadSaveLocationAndRecordings pf rs ?w1 =
      loadRecordings_p002 pf rs (rs\<lparr>saveLocation_r := d\<rparr>) (Some d)
        (logCall (GetItem ''saveLocation'') ?w1)"
    using rk [of _ _ rs] by simp
  have t: "targetLocation pf (ist\<lparr>saveLocation := d\<rparr>) = d"
    using nc(2) by (simp add: targetLocation_def orElse_def)
  have tp: "\<not> startsWith (targetLocation pf (ist\<lparr>saveLocation := d\<rparr>)) ''content://''"
    by (simp add: t nc(1))
  have ll: "listLocation pf rs (Some d) = d"
    using nc(2) by (simp add: listLocation_def orElseOpt_def orElse_def)
  have lp: "\<not> startsWith (listLocation pf rs (Some d)) ''content://''"
    by (simp add: ll nc(1))
  have n3: "saveLocation_r (fst (loadSaveLocationAndRecordings pf rs ?w1)) = d"
    unfolding n2 using loadRecordings_p002_plain_location [OF lp] by simp
  have n4: "take 2 (newCalls ?w1 (snd (loadSaveLocationAndRecordings pf rs ?w1)))
      = [GetItem ''saveLocation'', ReadDirectory d]"
  proof -
    have "newCalls (logCall (GetItem ''saveLocation'') ?w1)
        (snd (loadRecordings_p002 pf rs (rs\<lparr>saveLocation_r := d\<rparr>) (Some d)
          (logCall (GetItem ''saveLocation'') ?w1))) =
      ReadDirectory d #
        (case fst (FileSystem_readDirectoryAsync d (logCall (GetItem ''saveLocation'') ?w1)) of
           Inl e \<Rightarrow> [Alert ''Error'' ''Failed to load recordings'']
         | Inr fs \<Rightarrow> [])"
      using loadRecordings_plain_calls [OF lp] by (simp add: ll)
    then obtain rest where "drop (length (calls ?w1) + 1)
        (calls (snd (loadRecordings_p002 pf rs (rs\<lparr>saveLocation_r := d\<rparr>) (Some d)
          (logCall (GetItem ''saveLocation'') ?w1)))) = ReadDirectory d # rest"
      by (simp add: newCalls_def logCall_def)
    moreover have "\<exists>more. calls (snd (loadRecordings_p002 pf rs (rs\<lparr>saveLocation_r := d\<rparr>) (Some d)
          (logCall (GetItem ''saveLocation'') ?w1))) = calls ?w1 @ GetItem ''saveLocation'' # more"
      using lp
      by (simp add: loadRecordings_p002_def Let_def FileSystem_readDirectoryAsync_def alert_def
          logCall_def)
    ultimately show ?thesis
      by (auto simp: n2 newCalls_def)
  qed
  have n5: "\<forall>v w'. storageOk w' \<and> map_of (storage w') ''saveLocation'' = Some v \<and> v \<noteq> [] \<longrightarrow>
       saveLocation (fst (loadSaveLocation pf ist w')) = v \<and>
       saveLocation_s (fst (loadSettings pf sst w')) = v \<and>
       loadSaveLocationAndRecordings pf rs w' =
         loadRecordings_p002 pf rs (rs\<lparr>saveLocation_r := v\<rparr>) (Some v)
           (logCall (GetItem ''saveLocation'') w')"
    using resolvers_read_key [of _ _ pf ist sst rs] by simp
  have c1: "newCalls w2 (snd (snd (createLockFile pf (ist\<lparr>saveLocation := d\<rparr>) ist2 w2)))
      = [WriteAsString (d @ ''recording.lock'') ''RECORDING_IN_PROGRESS'']"
    using createLockFile_plain_calls [OF tp] by (simp add: t)
  have c2: "newCalls w2 (saveRecording pf now (ist\<lparr>saveLocation := d\<rparr>) u w2)
      = [Copy u (d @ getFormattedFileName now),
         case fst (saveFile pf now (ist\<lparr>saveLocation := d\<rparr>) u w2) of
           Inl e \<Rightarrow> Alert ''Save Error'' ''Failed to save recording. Check console for details.''
         | Inr x \<Rightarrow> Alert ''Recording Saved'' (''Recording saved as: '' @ getFormattedFileName now)]"
    using saveRecording_plain_calls [OF tp] nc(2) by (simp add: t orElse_def)
  have c3: "newCalls w2 (snd (removeLockFile pf (ist\<lparr>saveLocation := d\<rparr>) ist2 w2))
      = (if lockFileName ist = [] then [] else [Delete (d @ lockFileName ist) True])"
    using removeLockFile_plain_calls [OF tp] by (simp add: t)
  have c4: "newCalls w2 (snd (loadRecordings_p002 pf rs rst (Some d) w2))
      = ReadDirectory d #
          (case fst (FileSystem_readDirectoryAsync d w2) of
             Inl e \<Rightarrow> [Alert ''Error'' ''Failed to load recordings'']
           | Inr fs \<Rightarrow> [])"
    using loadRecordings_plain_calls [OF lp] by (simp add: ll)
  show ?thesis
    using old n1 n2 n3 n4 n5 c1 c2 c3 c4 unfolding f by blast
qed

text \<open>
  The reset on the device whose key named the revoked tree.
\<close>

theorem reset_to_default_witness:
  "storageOk worldRevoked \<and> documentDirectory device = Some docDir \<and>
   startsWith docDir ''file://'' \<and>
   map_of (storage worldRevoked) ''saveLocation'' = Some treeUri \<and>
   map_of (storage (snd (resetToDefault device idleSettings worldRevoked))) ''saveLocation''
     = Some docDir \<and>
   saveLocation (fst (loadSaveLocation device idleRecorder
     (snd (resetToDefault device idleSettings worldRevoked)))) = docDir \<and>
   \<not> startsWith docDir ''content://'' \<and>
   saveLocation_s (fst (loadSettings device idleSettings
     (snd (resetToDefault device idleSettings worldRevoked)))) = docDir \<and>
   saveLocation_r (fst (loadSaveLocationAndRecordings device idleList
     (snd (resetToDefault device idleSettings worldRevoked)))) = docDir \<and>
   take 2 (newCalls (snd (resetToDefault device idleSettings worldRevoked))
       (snd (loadSaveLocationAndRecordings device idleList
         (snd (resetToDefault device idleSettings worldRevoked)))))
     = [GetItem ''saveLocation'', ReadDirectory docDir] \<and>
   newCalls world0 (snd (snd (createLockFile device
       (fst (loadSaveLocation device idleRecorder
         (snd (resetToDefault device idleSettings worldRevoked)))) idleRecorder world0)))
     = [WriteAsString (docDir @ ''recording.lock'') ''RECORDING_IN_PROGRESS'']"
proof -
  have a: "storageOk worldRevoked" by (simp add: worldRevoked_def world0_def)
  have b: "documentDirectory device = Some docDir" by (simp add: device_def)
  have c: "startsWith docDir ''file://''" by (simp add: docDir_def startsWith_def)
  have d: "map_of (storage worldRevoked) ''saveLocation'' = Some treeUri"
    by (simp add: worldRevoked_def)
  note th = reset_to_default [OF a b c, of idleSettings idleRecorder idleSettings idleList
      world0 idleRecorder stopDate "''file:///cache/a.m4a''" idleList]
  have "fst (loadSettings device idleSettings
       (snd (resetToDefault device idleSettings worldRevoked)))
     = idleSettings\<lparr>saveLocation_s := docDir, isLoading := False\<rparr>"
    using th by (elim conjE) assumption
  then have e0: "saveLocation_s (fst (loadSettings device idleSettings
     (snd (resetToDefault device idleSettings worldRevoked)))) = docDir"
    by simp
  have e: "map_of (storage (snd (resetToDefault device idleSettings worldRevoked))) ''saveLocation''
     = Some docDir \<and>
   saveLocation (fst (loadSaveLocation device idleRecorder
     (snd (resetToDefault device idleSettings worldRevoked)))) = docDir \<and>
   \<not> startsWith docDir ''content://'' \<and>
   saveLocation_r (fst (loadSaveLocationAndRecordings device idleList
     (snd (resetToDefault device idleSettings worldRevoked)))) = docDir \<and>
   take 2 (newCalls (snd (resetToDefault device idleSettings worldRevoked))
       (snd (loadSaveLocationAndRecordings device idleList
         (snd (resetToDefault device idleSettings worldRevoked)))))
     = [GetItem ''saveLocation'', ReadDirectory docDir] \<and>
   newCalls world0 (snd (snd (createLockFile device
       (fst (loadSaveLocation device idleRecorder
         (snd (resetToDefault device idleSettings worldRevoked)))) idleRecorder world0)))
     = [WriteAsString (docDir @ ''recording.lock'') ''RECORDING_IN_PROGRESS'']"
    using th by (elim conjE, intro conjI) assumption+
  from a b c d e0 e show ?thesis by (elim conjE, intro conjI) assumption+
qed

end
